theory Spec2Isabelle
  imports
    Complex_Main
    "HOL-Library.Word"
    "HOL-Library.AList"
    "HOL-Library.DAList"
    "HOL-Library.Log_Nat"
begin

section \<open>Data model\<close>

text \<open>
  Go's \<^verbatim>\<open>int64\<close> and \<^verbatim>\<open>int32\<close> are two's-complement machine integers: words
  read through \<open>sint\<close>. A Go \<^verbatim>\<open>string\<close> is a byte sequence, here a \<open>char list\<close>.
\<close>

type_synonym int64 = "64 word"
type_synonym int32 = "32 word"

text \<open>
  \<^verbatim>\<open>float64\<close> values are represented by what they denote: a binary64 number by the
  rational it stands for, the two infinities and NaN by constructors of their own. The
  two zeros are not told apart (the program only compares with zero, and \<^verbatim>\<open>-0 == 0\<close>).
\<close>

datatype float64 = Finite rat | PosInf | NegInf | NaN

text \<open>\<^verbatim>\<open>type VesselType int32\<close> with its constants and conversions (vessel_types.go).\<close>

datatype VesselType = VesselType int32

definition Installation :: VesselType where "Installation = VesselType 1"
definition Vessel :: VesselType where "Vessel = VesselType 2"
definition Missile :: VesselType where "Missile = VesselType 3"
definition Air :: VesselType where "Air = VesselType 4"

fun VesselType_ToInt32 :: "VesselType \<Rightarrow> int32" where
  "VesselType_ToInt32 (VesselType e) = e"

definition VesselTypeFromInt32 :: "int32 \<Rightarrow> VesselType" where
  "VesselTypeFromInt32 code = VesselType code"

text \<open>\<^verbatim>\<open>type ErrorCode int32\<close> (error_codes.go).\<close>

datatype ErrorCode = ErrorCode int32

definition ErrorSuccess :: ErrorCode where "ErrorSuccess = ErrorCode (- 1)"
definition ErrorWrongID :: ErrorCode where "ErrorWrongID = ErrorCode 1201"
definition ErrorWrongVesselType :: ErrorCode where "ErrorWrongVesselType = ErrorCode 1202"
definition ErrorUnauthorized :: ErrorCode where "ErrorUnauthorized = ErrorCode 12401"
definition ErrorNotFound :: ErrorCode where "ErrorNotFound = ErrorCode 12404"
definition ErrorServerError :: ErrorCode where "ErrorServerError = ErrorCode 12500"

fun ErrorCode_ToInt32 :: "ErrorCode \<Rightarrow> int32" where
  "ErrorCode_ToInt32 (ErrorCode e) = e"

record VesselTelemetry =
  ID :: int64
  Name :: string
  Callsign :: string
  X :: float64
  Y :: float64
  Z :: float64
  ABSSpeed :: float64
  Type :: VesselType
  Direction :: float64
  Timestamp :: int64
  TgtX :: float64
  TgtY :: float64
  TgtZ :: float64
  HasTgt :: bool

text \<open>
  The global \<^verbatim>\<open>vessels\<close> is a Go map from the raw identifier string to a record: finite,
  one entry per key, iterated in an order the language leaves open. It is modelled as an
  association list with distinct keys; the order of the list stands for the order in
  which \<^verbatim>\<open>range\<close> visits the entries, and no statement below depends on it.
\<close>

type_synonym store = "(string, VesselTelemetry) alist"

text \<open>The instance identifier is kept as its canonical text, the form in which it is sent.\<close>

record Client =
  UUID :: string

record state =
  clientInfo :: Client
  vessels :: store
  cleanupEnabled :: bool

text \<open>What the program prints on standard output, one value per \<^verbatim>\<open>Printf\<close>.\<close>

datatype log_line =
    LogRemoved nat int
  | LogRemaining nat
  | LogNotValidVehId string
  | LogSaved string float64 float64 float64 float64
  | LogHealthCheck string

section \<open>The expiry sweeper (cleanupOldVessels)\<close>

text \<open>Durations are nanosecond counts; the two below are compile-time constants.\<close>

definition Microsecond :: int where "Microsecond = 1000"
definition Millisecond :: int where "Millisecond = 1000 * Microsecond"
definition Second :: int where "Second = 1000 * Millisecond"

definition cleanupInterval :: int where "cleanupInterval = 2500 * Microsecond"
definition cleanupThreshold :: int where "cleanupThreshold = 5 * Second"

text \<open>
  The \<^verbatim>\<open>range\<close> loop of the sweeper. It walks the entries the map held when the loop
  started; the only entry it deletes is the one it is visiting, so no entry is skipped or
  seen twice. The pair carried along is the map and \<^verbatim>\<open>removedCount\<close>.
\<close>

fun cleanup_range ::
  "(string \<times> VesselTelemetry) list \<Rightarrow> int64 \<Rightarrow> store \<times> nat \<Rightarrow> store \<times> nat" where
  "cleanup_range [] threshold st = st"
| "cleanup_range ((vid, vessel) # rest) threshold (vs, removedCount) =
     (if sint (Timestamp vessel) < sint threshold
      then cleanup_range rest threshold (DAList.delete vid vs, removedCount + 1)
      else cleanup_range rest threshold (vs, removedCount))"

text \<open>
  The critical section of one tick, with the staleness bound \<open>T\<close> (milliseconds) as a
  parameter: \<^verbatim>\<open>threshold := now - T\<close> in \<^verbatim>\<open>int64\<close> arithmetic, then the loop.
\<close>

definition sweep :: "int64 \<Rightarrow> int64 \<Rightarrow> store \<Rightarrow> store \<times> nat" where
  "sweep now T vs = (let threshold = now - T in cleanup_range (DAList.impl_of vs) threshold (vs, 0))"

text \<open>
  One iteration of the sweeper's endless loop, after its sleep: \<open>now\<close> is the reading of
  \<^verbatim>\<open>time.Now().UnixMilli()\<close>. The result is the new state and what was printed.
\<close>

definition cleanupOldVessels_tick :: "int64 \<Rightarrow> state \<Rightarrow> state \<times> log_line list" where
  "cleanupOldVessels_tick now s =
     (if \<not> cleanupEnabled s then (s, [])
      else
        let (vs, removedCount) = sweep now (word_of_int (cleanupThreshold div Millisecond)) (vessels s)
        in (s\<lparr>vessels := vs\<rparr>,
            if removedCount > 0
            then [LogRemoved removedCount cleanupThreshold, LogRemaining (length (DAList.impl_of vs))]
            else []))"

section \<open>Library functions the handlers call\<close>

text \<open>
  The handlers parse their parameters with \<^verbatim>\<open>strconv.ParseInt\<close> and \<^verbatim>\<open>fmt.Sscanf\<close>
  and write their answer with \<^verbatim>\<open>encoding/json\<close>. These belong to Go's standard
  library (Go 1.13 or later, where numbers may be hexadecimal and hold underscores);
  they are modelled here after the library's algorithms, for a platform whose
  \<^verbatim>\<open>int\<close> has 64 bits. Every way they can fail is a value of \<open>lib_error\<close>.
\<close>

datatype lib_error =
    ErrSyntax
  | ErrRange
  | ErrBase
  | ErrUnexpectedNewline
  | ErrEOF
  | ErrExpectedInteger
  | ErrIntegerOverflow
  | ErrUnsupportedValue

definition byte :: "char \<Rightarrow> nat" where
  "byte c = of_char c"

text \<open>\<^verbatim>\<open>lower(c) = c | ('x' - 'X')\<close>: sets bit 5 of the byte.\<close>

definition lower :: "char \<Rightarrow> nat" where
  "lower c = (if (byte c div 32) mod 2 = 0 then byte c + 32 else byte c)"

definition is_digit :: "char \<Rightarrow> bool" where
  "is_digit c = (48 \<le> byte c \<and> byte c \<le> 57)"

subsection \<open>strconv.ParseInt\<close>

text \<open>
  \<^verbatim>\<open>underscoreOK\<close>: underscores may only separate digits (a base prefix counts as a
  digit). \<open>saw\<close> is the last character seen.
\<close>

datatype saw = SawStart | SawDigit | SawUnderscore | SawOther

fun underscoreOK_loop :: "bool \<Rightarrow> string \<Rightarrow> saw \<Rightarrow> bool" where
  "underscoreOK_loop hex [] saw = (saw \<noteq> SawUnderscore)"
| "underscoreOK_loop hex (c # cs) saw =
     (if is_digit c \<or> (hex \<and> 97 \<le> lower c \<and> lower c \<le> 102)
      then underscoreOK_loop hex cs SawDigit
      else if c = CHR ''_''
      then (if saw \<noteq> SawDigit then False else underscoreOK_loop hex cs SawUnderscore)
      else if saw = SawUnderscore then False
      else underscoreOK_loop hex cs SawOther)"

definition underscoreOK :: "string \<Rightarrow> bool" where
  "underscoreOK s =
     (let s1 = (if 1 \<le> length s \<and> (hd s = CHR ''-'' \<or> hd s = CHR ''+'') then tl s else s)
      in if 2 \<le> length s1 \<and> hd s1 = CHR ''0''
            \<and> (lower (s1 ! 1) = 98 \<or> lower (s1 ! 1) = 111 \<or> lower (s1 ! 1) = 120)
         then underscoreOK_loop (lower (s1 ! 1) = 120) (drop 2 s1) SawDigit
         else underscoreOK_loop False s1 SawStart)"

text \<open>
  The digit loop of \<^verbatim>\<open>ParseUint\<close> for 64 bits. The state is the flag
  \<^verbatim>\<open>underscores\<close> and the number read so far; \<^verbatim>\<open>uint64\<close> overflow is the
  comparison with \<open>maxVal\<close>.
\<close>

fun ParseUint_loop ::
  "bool \<Rightarrow> nat \<Rightarrow> string \<Rightarrow> bool \<times> nat \<Rightarrow> lib_error + bool \<times> nat" where
  "ParseUint_loop base0 base [] st = Inr st"
| "ParseUint_loop base0 base (c # cs) (underscores, n) =
     (if c = CHR ''_'' \<and> base0 then ParseUint_loop base0 base cs (True, n)
      else if \<not> (is_digit c \<or> (97 \<le> lower c \<and> lower c \<le> 122)) then Inl ErrSyntax
      else
        let d = (if is_digit c then byte c - 48 else lower c - 97 + 10);
            cutoff = (2 ^ 64 - 1) div base + 1;
            maxVal = 2 ^ 64 - 1
        in if d \<ge> base then Inl ErrSyntax
           else if n \<ge> cutoff then Inl ErrRange
           else if n * base + d > maxVal then Inl ErrRange
           else ParseUint_loop base0 base cs (underscores, n * base + d))"

definition ParseUint :: "string \<Rightarrow> nat \<Rightarrow> lib_error + nat" where
  "ParseUint s base =
     (if s = [] then Inl ErrSyntax
      else if \<not> (2 \<le> base \<and> base \<le> 36) \<and> base \<noteq> 0 then Inl ErrBase
      else
        let base0 = (base = 0);
            (base1, s1) =
              (if 2 \<le> base \<and> base \<le> 36 then (base, s)
               else if hd s = CHR ''0''
               then (if 3 \<le> length s \<and> lower (s ! 1) = 98 then (2, drop 2 s)
                     else if 3 \<le> length s \<and> lower (s ! 1) = 111 then (8, drop 2 s)
                     else if 3 \<le> length s \<and> lower (s ! 1) = 120 then (16, drop 2 s)
                     else (8, drop 1 s))
               else (10, s))
        in case ParseUint_loop base0 base1 s1 (False, 0) of
             Inl e \<Rightarrow> Inl e
           | Inr (underscores, n) \<Rightarrow>
               if underscores \<and> \<not> underscoreOK s then Inl ErrSyntax else Inr n)"

text \<open>\<^verbatim>\<open>ParseInt(s, base, 64)\<close>: an optional sign, then \<^verbatim>\<open>ParseUint\<close>, then the range.\<close>

definition ParseInt :: "string \<Rightarrow> nat \<Rightarrow> lib_error + int64" where
  "ParseInt s base =
     (if s = [] then Inl ErrSyntax
      else
        let neg = (hd s = CHR ''-'');
            s1 = (if hd s = CHR ''+'' \<or> hd s = CHR ''-'' then tl s else s)
        in case ParseUint s1 base of
             Inl e \<Rightarrow> Inl e
           | Inr un \<Rightarrow>
               if \<not> neg \<and> un \<ge> 2 ^ 63 then Inl ErrRange
               else if neg \<and> un > 2 ^ 63 then Inl ErrRange
               else Inr (if neg then - word_of_nat un else word_of_nat un))"

text \<open>\<^verbatim>\<open>Atoi(s)\<close> is \<^verbatim>\<open>ParseInt(s, 10, 0)\<close>; its result is an \<^verbatim>\<open>int\<close>.\<close>

definition Atoi :: "string \<Rightarrow> lib_error + int64" where
  "Atoi s = ParseInt s 10"

subsection \<open>strconv.ParseFloat\<close>

definition pow2 :: "int \<Rightarrow> rat" where
  "pow2 e = (if 0 \<le> e then 2 ^ nat e else 1 / 2 ^ nat (- e))"

definition pow10 :: "int \<Rightarrow> rat" where
  "pow10 e = (if 0 \<le> e then 10 ^ nat e else 1 / 10 ^ nat (- e))"

text \<open>The binary exponent of a positive rational \<open>q\<close>: the \<open>e\<close> with \<open>2\<^sup>e \<le> q < 2\<^sup>e\<^sup>+\<^sup>1\<close>.\<close>

definition binary_exponent :: "rat \<Rightarrow> int" where
  "binary_exponent q =
     (let (a, b) = quotient_of q; e0 = bitlen a - bitlen b
      in if pow2 e0 \<le> q then e0 else e0 - 1)"

definition round_half_even :: "rat \<Rightarrow> int" where
  "round_half_even q =
     (let f = \<lfloor>q\<rfloor>; d = q - of_int f
      in if d < 1 / 2 then f else if 1 / 2 < d then f + 1 else if even f then f else f + 1)"

text \<open>
  The binary64 number nearest to a rational, ties to the even mantissa: 53 bits of
  mantissa, exponents from \<open>-1022\<close> (below it the numbers are subnormal, spaced
  \<open>2\<^sup>-\<^sup>1\<^sup>0\<^sup>7\<^sup>4\<close> apart) to \<open>1023\<close>. \<open>None\<close> when the nearest number would be
  \<open>2\<^sup>1\<^sup>0\<^sup>2\<^sup>4\<close> or more: the library reports a range error then.
\<close>

definition round_float64 :: "rat \<Rightarrow> rat option" where
  "round_float64 q =
     (if q = 0 then Some 0
      else
        let e = max (binary_exponent \<bar>q\<bar>) (- 1022);
            ulp = pow2 (e - 52);
            r = of_int (round_half_even (\<bar>q\<bar> / ulp)) * ulp
        in if pow2 1024 \<le> r then None else Some (if q < 0 then - r else r))"

text \<open>\<^verbatim>\<open>commonPrefixLenIgnoreCase(s, prefix)\<close>, the prefix being in lower case.\<close>

fun commonPrefixLenIgnoreCase :: "string \<Rightarrow> string \<Rightarrow> nat" where
  "commonPrefixLenIgnoreCase (c # cs) (p # ps) =
     (if (if 65 \<le> byte c \<and> byte c \<le> 90 then byte c + 32 else byte c) = byte p
      then Suc (commonPrefixLenIgnoreCase cs ps) else 0)"
| "commonPrefixLenIgnoreCase _ _ = 0"

text \<open>\<^verbatim>\<open>special\<close>: the infinities and NaN, with the number of bytes read.\<close>

definition special :: "string \<Rightarrow> (float64 \<times> nat) option" where
  "special s =
     (case s of
        [] \<Rightarrow> None
      | c # cs \<Rightarrow>
          if c = CHR ''+'' \<or> c = CHR ''-'' \<or> c = CHR ''i'' \<or> c = CHR ''I'' then
            let signed = (c = CHR ''+'' \<or> c = CHR ''-'');
                nsign = (if signed then 1 else 0);
                n0 = commonPrefixLenIgnoreCase (if signed then cs else s) ''infinity'';
                n = (if 3 < n0 \<and> n0 < 8 then 3 else n0)
            in if n = 3 \<or> n = 8
               then Some (if c = CHR ''-'' then NegInf else PosInf, nsign + n)
               else None
          else if c = CHR ''n'' \<or> c = CHR ''N'' then
            (if commonPrefixLenIgnoreCase s ''nan'' = 3 then Some (NaN, 3) else None)
          else None)"

text \<open>
  The mantissa loop of \<^verbatim>\<open>readFloat\<close>. The state is \<^verbatim>\<open>underscores\<close>,
  \<^verbatim>\<open>sawdot\<close>, \<^verbatim>\<open>sawdigits\<close>, the digits read so far as one number, and how many of
  them came after the point. (The library keeps 19 digits and a flag for the rest, and
  goes back to the text when the flag matters; the number it returns is the correctly
  rounded value of all the digits, which is what is computed here.)
\<close>

fun readFloat_digits ::
  "nat \<Rightarrow> string \<Rightarrow> bool \<times> bool \<times> bool \<times> nat \<times> nat
     \<Rightarrow> (bool \<times> bool \<times> bool \<times> nat \<times> nat) \<times> string" where
  "readFloat_digits base [] st = (st, [])"
| "readFloat_digits base (c # cs) (underscores, sawdot, sawdigits, mantissa, nfrac) =
     (if c = CHR ''_''
      then readFloat_digits base cs (True, sawdot, sawdigits, mantissa, nfrac)
      else if c = CHR ''.''
      then (if sawdot then ((underscores, sawdot, sawdigits, mantissa, nfrac), c # cs)
            else readFloat_digits base cs (underscores, True, sawdigits, mantissa, nfrac))
      else if is_digit c
      then readFloat_digits base cs
             (underscores, sawdot, True, mantissa * base + (byte c - 48),
              if sawdot then nfrac + 1 else nfrac)
      else if base = 16 \<and> 97 \<le> lower c \<and> lower c \<le> 102
      then readFloat_digits base cs
             (underscores, sawdot, True, mantissa * 16 + (lower c - 97 + 10),
              if sawdot then nfrac + 1 else nfrac)
      else ((underscores, sawdot, sawdigits, mantissa, nfrac), c # cs))"

text \<open>The digits of the exponent; the library stops adding once it has reached 10000.\<close>

fun readFloat_exp_digits :: "string \<Rightarrow> bool \<times> int \<Rightarrow> (bool \<times> int) \<times> string" where
  "readFloat_exp_digits [] st = (st, [])"
| "readFloat_exp_digits (c # cs) (underscores, e) =
     (if c = CHR ''_'' then readFloat_exp_digits cs (True, e)
      else if is_digit c
      then readFloat_exp_digits cs (underscores, if e < 10000 then e * 10 + int (byte c - 48) else e)
      else ((underscores, e), c # cs))"

text \<open>The optional exponent (required after a hexadecimal mantissa): its value, whether
  it held an underscore, and the rest of the input.\<close>

definition readFloat_exponent :: "bool \<Rightarrow> string \<Rightarrow> (int \<times> bool \<times> string) option" where
  "readFloat_exponent hex s =
     (if s \<noteq> [] \<and> lower (hd s) = (if hex then 112 else 101) then
        let s1 = tl s in
        if s1 = [] then None
        else
          let esign = (if hd s1 = CHR ''-'' then - 1 else 1);
              s2 = (if hd s1 = CHR ''+'' \<or> hd s1 = CHR ''-'' then tl s1 else s1)
          in if s2 = [] \<or> \<not> is_digit (hd s2) then None
             else
               let ((underscores, e), s3) = readFloat_exp_digits s2 (False, 0)
               in Some (e * esign, underscores, s3)
      else if hex then None
      else Some (0, False, s))"

text \<open>\<^verbatim>\<open>readFloat\<close>: the exact value of the longest number at the start of \<open>s\<close> and
  the number of bytes it takes, or \<open>None\<close> where the library reports \<^verbatim>\<open>ok = false\<close>.\<close>

definition readFloat :: "string \<Rightarrow> (rat \<times> nat) option" where
  "readFloat s =
     (if s = [] then None
      else
        let neg = (hd s = CHR ''-'');
            s1 = (if hd s = CHR ''+'' \<or> hd s = CHR ''-'' then tl s else s);
            hex = (2 < length s1 \<and> hd s1 = CHR ''0'' \<and> lower (s1 ! 1) = 120);
            ((underscores, sawdot, sawdigits, mantissa, nfrac), s2) =
              readFloat_digits (if hex then 16 else 10) (if hex then drop 2 s1 else s1)
                (False, False, False, 0, 0)
        in if \<not> sawdigits then None
           else
             case readFloat_exponent hex s2 of
               None \<Rightarrow> None
             | Some (e, underscores2, s3) \<Rightarrow>
                 let n = length s - length s3;
                     v = of_nat mantissa *
                         (if hex then pow2 (e - 4 * int nfrac) else pow10 (e - int nfrac))
                 in if (underscores \<or> underscores2) \<and> \<not> underscoreOK (take n s) then None
                    else Some (if neg then - v else v, n))"

text \<open>\<^verbatim>\<open>ParseFloat(s, 64)\<close>: the whole of \<open>s\<close> must be one number.\<close>

definition ParseFloat :: "string \<Rightarrow> lib_error + float64" where
  "ParseFloat s =
     (case special s of
        Some (f, n) \<Rightarrow> if n \<noteq> length s then Inl ErrSyntax else Inr f
      | None \<Rightarrow>
          (case readFloat s of
             None \<Rightarrow> Inl ErrSyntax
           | Some (v, n) \<Rightarrow>
               if n \<noteq> length s then Inl ErrSyntax
               else (case round_float64 v of None \<Rightarrow> Inl ErrRange | Some r \<Rightarrow> Inr (Finite r))))"

text \<open>
  \<^verbatim>\<open>math.Ldexp(x, n)\<close> is \<open>x \<times> 2\<^sup>n\<close>. The library adds \<open>n\<close> to the binary
  exponent of \<open>x\<close> in \<^verbatim>\<open>int\<close> arithmetic, which wraps; a sum below \<open>-1075\<close> gives
  zero and one above \<open>1023\<close> an infinity.
\<close>

definition Ldexp :: "float64 \<Rightarrow> int64 \<Rightarrow> float64" where
  "Ldexp x n =
     (case x of
        Finite q \<Rightarrow>
          if q = 0 then x
          else
            let e = sint (n + word_of_int (binary_exponent \<bar>q\<bar>))
            in if e < - 1075 then Finite 0
               else if 1023 < e then (if q < 0 then NegInf else PosInf)
               else (case round_float64 (q * pow2 (e - binary_exponent \<bar>q\<bar>)) of
                       Some r \<Rightarrow> Finite r
                     | None \<Rightarrow> if q < 0 then NegInf else PosInf)
      | _ \<Rightarrow> x)"

subsection \<open>fmt.Sscanf with the verbs \<^verbatim>\<open>%f\<close> and \<^verbatim>\<open>%d\<close>\<close>

text \<open>
  The scanner reads runes. \<open>space_width\<close> is the number of bytes of the white-space rune
  (other than a newline) that \<open>s\<close> starts with, \<open>0\<close> if it starts with none: the runes of
  \<^verbatim>\<open>isSpace\<close> in their UTF-8 encoding.
\<close>

definition space_width :: "string \<Rightarrow> nat" where
  "space_width s =
     (let b = map byte s in
      if take 1 b \<in> {[9], [11], [12], [13], [32]} then 1
      else if take 2 b \<in> {[194, 133], [194, 160]} then 2
      else if take 3 b \<in> {[225, 154, 128], [226, 128, 168], [226, 128, 169], [226, 128, 175],
                           [226, 129, 159], [227, 128, 128]} then 3
      else if take 2 b = [226, 128] \<and> 3 \<le> length b \<and> 128 \<le> b ! 2 \<and> b ! 2 \<le> 138 then 3
      else 0)"

text \<open>\<^verbatim>\<open>SkipSpace\<close> for \<^verbatim>\<open>Sscanf\<close>, where a newline in the input is an error: the
  input that is left.\<close>

fun SkipSpace :: "string \<Rightarrow> lib_error + string" where
  "SkipSpace [] = Inr []"
| "SkipSpace (c # cs) =
     (if c = CHR 0x0A then Inl ErrUnexpectedNewline
      else if space_width (c # cs) = 0 then Inr (c # cs)
      else SkipSpace (drop (space_width (c # cs) - 1) cs))"

text \<open>
  The scanner's state is the token buffer and the input left. \<^verbatim>\<open>accept(ok)\<close> moves the
  next rune to the buffer when it is one of \<open>ok\<close>; every \<open>ok\<close> below is ASCII, so the
  rune is one byte.
\<close>

type_synonym ss = "string \<times> string"

fun accept :: "string \<Rightarrow> ss \<Rightarrow> bool \<times> ss" where
  "accept ok (buf, []) = (False, (buf, []))"
| "accept ok (buf, c # rest) =
     (if c \<in> set ok then (True, (buf @ [c], rest)) else (False, (buf, c # rest)))"

text \<open>\<^verbatim>\<open>s.accept(a) && s.accept(b) && ...\<close>: stops at the first that fails, keeping what
  was accepted.\<close>

fun accept_seq :: "string list \<Rightarrow> ss \<Rightarrow> bool \<times> ss" where
  "accept_seq [] s = (True, s)"
| "accept_seq (ok # oks) s =
     (case accept ok s of (True, s') \<Rightarrow> accept_seq oks s' | (False, s') \<Rightarrow> (False, s'))"

text \<open>\<^verbatim>\<open>for s.accept(ok) { }\<close>\<close>

fun accept_many :: "string \<Rightarrow> ss \<Rightarrow> ss" where
  "accept_many ok (buf, []) = (buf, [])"
| "accept_many ok (buf, c # rest) =
     (if c \<in> set ok then accept_many ok (buf @ [c], rest) else (buf, c # rest))"

definition decimalDigits :: string where "decimalDigits = ''0123456789''"
definition hexadecimalDigits :: string where "hexadecimalDigits = ''0123456789aAbBcCdDeEfF''"
definition sign :: string where "sign = ''+-''"
definition period :: string where "period = ''.''"
definition exponent :: string where "exponent = ''eEpP''"

definition floatToken :: "string \<Rightarrow> string" where
  "floatToken input =
     (case accept_seq [''nN'', ''aA'', ''nN''] ([], input) of
        (True, s1) \<Rightarrow> fst s1
      | (False, s1) \<Rightarrow>
          (case accept_seq [''iI'', ''nN'', ''fF''] (snd (accept sign s1)) of
             (True, s3) \<Rightarrow> fst s3
           | (False, s3) \<Rightarrow>
               let (hexp, s4) = accept_seq [''0'', ''xX''] s3;
                   digits = (if hexp then hexadecimalDigits @ ''_'' else decimalDigits @ ''_'');
                   ex = (if hexp then ''pP'' else exponent);
                   s5 = accept_many digits s4;
                   s6 = (case accept period s5 of
                           (True, s) \<Rightarrow> accept_many digits s
                         | (False, s) \<Rightarrow> s);
                   s7 = (case accept ex s6 of
                           (True, s) \<Rightarrow> accept_many (decimalDigits @ ''_'') (snd (accept sign s))
                         | (False, s) \<Rightarrow> s)
               in fst s7))"

text \<open>
  \<^verbatim>\<open>convertFloat\<close>: a token with a \<^verbatim>\<open>p\<close> and no \<^verbatim>\<open>x\<close> is a decimal number with a
  binary exponent, which the scanner evaluates itself; any other token goes to
  \<^verbatim>\<open>ParseFloat\<close>.
\<close>

definition convertFloat :: "string \<Rightarrow> lib_error + float64" where
  "convertFloat str =
     (if CHR ''p'' \<in> set str \<and> CHR ''x'' \<notin> set str \<and> CHR ''X'' \<notin> set str then
        let p = length (takeWhile (\<lambda>c. c \<noteq> CHR ''p'') str) in
        case ParseFloat (take p str) of
          Inl e \<Rightarrow> Inl e
        | Inr f \<Rightarrow> (case Atoi (drop (p + 1) str) of Inl e \<Rightarrow> Inl e | Inr m \<Rightarrow> Inr (Ldexp f m))
      else ParseFloat str)"

text \<open>
  \<^verbatim>\<open>fmt.Sscanf(str, "%f", &f)\<close>: \<open>Inr\<close> the number stored in \<^verbatim>\<open>f\<close>, or \<open>Inl\<close> the
  error, in which case \<^verbatim>\<open>f\<close> is not written. Space is skipped once for the verb and
  once for the operand; what follows the token is not looked at. (The scanner gives up
  after \<open>2\<^sup>3\<^sup>0\<close> runes; a query parameter is shorter, the server reads no more than
  a megabyte of request line and headers.)
\<close>

definition Sscanf_f :: "string \<Rightarrow> lib_error + float64" where
  "Sscanf_f str =
     (case SkipSpace str of
        Inl e \<Rightarrow> Inl e
      | Inr s1 \<Rightarrow>
          (case SkipSpace s1 of
             Inl e \<Rightarrow> Inl e
           | Inr s2 \<Rightarrow> if s2 = [] then Inl ErrEOF else convertFloat (floatToken s2)))"

text \<open>
  \<^verbatim>\<open>fmt.Sscanf(str, "%d", &i)\<close> for an \<^verbatim>\<open>int32\<close>: a sign and decimal digits, read
  by \<^verbatim>\<open>ParseInt(tok, 10, 64)\<close> and then checked against 32 bits.
\<close>

definition Sscanf_d :: "string \<Rightarrow> lib_error + int32" where
  "Sscanf_d str =
     (case SkipSpace str of
        Inl e \<Rightarrow> Inl e
      | Inr s1 \<Rightarrow>
          (case SkipSpace s1 of
             Inl e \<Rightarrow> Inl e
           | Inr s2 \<Rightarrow>
               if s2 = [] then Inl ErrEOF
               else
                 let s3 = snd (accept sign ([], s2)) in
                 if snd s3 = [] then Inl ErrEOF
                 else
                   (case accept decimalDigits s3 of
                      (False, s4) \<Rightarrow> Inl ErrExpectedInteger
                    | (True, s4) \<Rightarrow>
                        (case ParseInt (fst (accept_many decimalDigits s4)) 10 of
                           Inl e \<Rightarrow> Inl e
                         | Inr i \<Rightarrow>
                             if sint i < - (2 ^ 31) \<or> 2 ^ 31 \<le> sint i then Inl ErrIntegerOverflow
                             else Inr (word_of_int (sint i))))))"

section \<open>Parsing helpers of the program (main.go)\<close>

text \<open>Both start from the zero value and ignore the error of \<^verbatim>\<open>Sscanf\<close>.\<close>

definition parseFloat :: "string \<Rightarrow> float64" where
  "parseFloat s = (case Sscanf_f s of Inr f \<Rightarrow> f | Inl e \<Rightarrow> Finite 0)"

definition parseInt32 :: "string \<Rightarrow> int32" where
  "parseInt32 s = (case Sscanf_d s of Inr i \<Rightarrow> i | Inl e \<Rightarrow> 0)"

text \<open>Go's \<^verbatim>\<open>!=\<close> on \<^verbatim>\<open>float64\<close>: NaN differs from everything, itself included.\<close>

definition float64_ne :: "float64 \<Rightarrow> float64 \<Rightarrow> bool" where
  "float64_ne a b = (a = NaN \<or> b = NaN \<or> a \<noteq> b)"

section \<open>Responses (encoding/json)\<close>

text \<open>
  A response body is modelled by the JSON value it carries, not by its text; a string
  stands for its encoding. \<^verbatim>\<open>json.Encoder.Encode\<close> writes nothing when it cannot
  encode its argument, which happens for a \<^verbatim>\<open>float64\<close> that is NaN or infinite: the
  body is then empty (\<open>None\<close>). The handlers ignore the error it returns.
\<close>

datatype json =
    JNumber rat
  | JString string
  | JBool bool
  | JArray "json list"
  | JObject "(string \<times> json) list"

record response =
  Content_Type :: string
  body :: "json option"

definition Marshal_float64 :: "float64 \<Rightarrow> lib_error + json" where
  "Marshal_float64 f = (case f of Finite q \<Rightarrow> Inr (JNumber q) | _ \<Rightarrow> Inl ErrUnsupportedValue)"

fun Marshal_members :: "(string \<times> (lib_error + json)) list \<Rightarrow> lib_error + (string \<times> json) list" where
  "Marshal_members [] = Inr []"
| "Marshal_members ((k, r) # rest) =
     (case r of
        Inl e \<Rightarrow> Inl e
      | Inr j \<Rightarrow> (case Marshal_members rest of Inl e \<Rightarrow> Inl e | Inr js \<Rightarrow> Inr ((k, j) # js)))"

fun Marshal_elements :: "(lib_error + json) list \<Rightarrow> lib_error + json list" where
  "Marshal_elements [] = Inr []"
| "Marshal_elements (r # rest) =
     (case r of
        Inl e \<Rightarrow> Inl e
      | Inr j \<Rightarrow> (case Marshal_elements rest of Inl e \<Rightarrow> Inl e | Inr js \<Rightarrow> Inr (j # js)))"

text \<open>A record is encoded as an object whose member names are the struct's \<^verbatim>\<open>json\<close> tags.\<close>

definition Marshal_VesselTelemetry :: "VesselTelemetry \<Rightarrow> lib_error + json" where
  "Marshal_VesselTelemetry v =
     (case Marshal_members
        [(''id'', Inr (JNumber (of_int (sint (ID v))))),
         (''name'', Inr (JString (Name v))),
         (''callsign'', Inr (JString (Callsign v))),
         (''x'', Marshal_float64 (X v)),
         (''y'', Marshal_float64 (Y v)),
         (''z'', Marshal_float64 (Z v)),
         (''absspeed'', Marshal_float64 (ABSSpeed v)),
         (''type'', Inr (JNumber (of_int (sint (VesselType_ToInt32 (Type v)))))),
         (''direction'', Marshal_float64 (Direction v)),
         (''timestamp'', Inr (JNumber (of_int (sint (Timestamp v))))),
         (''tgtx'', Marshal_float64 (TgtX v)),
         (''tgty'', Marshal_float64 (TgtY v)),
         (''tgtz'', Marshal_float64 (TgtZ v)),
         (''hastgt'', Inr (JBool (HasTgt v)))]
      of Inl e \<Rightarrow> Inl e | Inr ms \<Rightarrow> Inr (JObject ms))"

text \<open>The values the handlers put into their \<^verbatim>\<open>map[string]interface{}\<close>.\<close>

datatype iface =
    AnInt32 int32
  | AnInt int
  | AnInt64 int64
  | AString string
  | Vessels "VesselTelemetry list"

definition Marshal_iface :: "iface \<Rightarrow> lib_error + json" where
  "Marshal_iface v =
     (case v of
        AnInt32 i \<Rightarrow> Inr (JNumber (of_int (sint i)))
      | AnInt i \<Rightarrow> Inr (JNumber (of_int i))
      | AnInt64 i \<Rightarrow> Inr (JNumber (of_int (sint i)))
      | AString t \<Rightarrow> Inr (JString t)
      | Vessels vs \<Rightarrow>
          (case Marshal_elements (map Marshal_VesselTelemetry vs) of
             Inl e \<Rightarrow> Inl e
           | Inr js \<Rightarrow> Inr (JArray js)))"

text \<open>
  \<^verbatim>\<open>json.NewEncoder(w).Encode(m)\<close> for a map \<open>m\<close>: the body written. The members are
  listed as in the source; the encoder emits them sorted by name.
\<close>

definition Encode :: "(string \<times> iface) list \<Rightarrow> json option" where
  "Encode m =
     (case Marshal_members (map (\<lambda>(k, v). (k, Marshal_iface v)) m) of
        Inl e \<Rightarrow> None
      | Inr ms \<Rightarrow> Some (JObject ms))"

section \<open>Request handlers (main.go)\<close>

text \<open>\<^verbatim>\<open>url.Values\<close> and its \<^verbatim>\<open>Get\<close>: the first value of the key, or the empty string.\<close>

type_synonym Values = "string \<Rightarrow> string list option"

definition Values_Get :: "Values \<Rightarrow> string \<Rightarrow> string" where
  "Values_Get v key = (case v key of None \<Rightarrow> [] | Some [] \<Rightarrow> [] | Some (x # xs) \<Rightarrow> x)"

text \<open>\<^verbatim>\<open>for _, v := range vessels { vesselsList = append(vesselsList, v) }\<close>\<close>

fun range_append ::
  "(string \<times> VesselTelemetry) list \<Rightarrow> VesselTelemetry list \<Rightarrow> VesselTelemetry list" where
  "range_append [] vesselsList = vesselsList"
| "range_append ((k, v) # rest) vesselsList = range_append rest (vesselsList @ [v])"

text \<open>
  The snapshot and the success response, which both handlers build with the same
  statements: the list is taken under the read lock, \<open>now\<close> is the clock read for the
  \<^verbatim>\<open>timestamp\<close> member.
\<close>

definition vesselsResponse :: "int64 \<Rightarrow> store \<Rightarrow> response" where
  "vesselsResponse now vs =
     (let vesselsList = range_append (DAList.impl_of vs) []
      in \<lparr>Content_Type = ''application/json'',
          body = Encode
            [(''errorcode'', AnInt32 (ErrorCode_ToInt32 ErrorSuccess)),
             (''vessels'', Vessels vesselsList),
             (''count'', AnInt (int (length vesselsList))),
             (''timestamp'', AnInt64 now)]\<rparr>)"

definition errorResponse :: "ErrorCode \<Rightarrow> response" where
  "errorResponse code =
     \<lparr>Content_Type = ''application/json'',
      body = Encode [(''errorcode'', AnInt32 (ErrorCode_ToInt32 code))]\<rparr>"

text \<open>
  The record \<^verbatim>\<open>setVesselTelemetry\<close> builds from the query parameters; \<open>now\<close> is the
  clock read for its \<^verbatim>\<open>Timestamp\<close>.
\<close>

definition vehIdInt_of :: "string \<Rightarrow> int64" where
  "vehIdInt_of vehId = (case ParseInt vehId 0 of Inl err \<Rightarrow> - 1 | Inr i \<Rightarrow> i)"

definition telemetry_of :: "Values \<Rightarrow> int64 \<Rightarrow> VesselTelemetry" where
  "telemetry_of params now =
     (let vehId = Values_Get params ''veh_id'';
          vehXPos = Values_Get params ''veh_x'';
          vehYPos = Values_Get params ''veh_y'';
          vehZPos = Values_Get params ''veh_z'';
          vehAbsSpeed = Values_Get params ''veh_abs_spd'';
          vehDir = Values_Get params ''veh_dir'';
          veh_name = Values_Get params ''veh_name'';
          callsign = Values_Get params ''callsign'';
          vesselType = Values_Get params ''type'';
          tgtXPos = Values_Get params ''tgt_x'';
          tgtYPos = Values_Get params ''tgt_y'';
          tgtZPos = Values_Get params ''tgt_z'';
          vehIdInt = vehIdInt_of vehId;
          tgtXf = parseFloat tgtXPos;
          tgtYf = parseFloat tgtYPos;
          hasTgt = (float64_ne tgtXf (Finite 0) \<and> float64_ne tgtYf (Finite 0))
      in \<lparr>ID = vehIdInt,
          Name = veh_name,
          Callsign = callsign,
          X = parseFloat vehXPos,
          Y = parseFloat vehYPos,
          Z = parseFloat vehZPos,
          ABSSpeed = parseFloat vehAbsSpeed,
          Type = VesselTypeFromInt32 (parseInt32 vesselType),
          Direction = parseFloat vehDir,
          Timestamp = now,
          TgtX = tgtXf,
          TgtY = tgtYf,
          TgtZ = parseFloat tgtZPos,
          HasTgt = hasTgt\<rparr>)"

text \<open>
  \<^verbatim>\<open>setVesselTelemetry\<close>: \<open>now\<close> and \<open>now'\<close> are its two clock readings, for the record
  and for the response. The result is the new state, the response and what was printed.
  The store is written in one critical section and read back in a second one; other
  handlers and the sweeper may run in between, here they do not.
\<close>

definition setVesselTelemetry ::
  "Values \<Rightarrow> int64 \<Rightarrow> int64 \<Rightarrow> state \<Rightarrow> state \<times> response \<times> log_line list" where
  "setVesselTelemetry params now now' s =
     (let vehId = Values_Get params ''veh_id'';
          vesselType = Values_Get params ''type''
      in if vehId = [] then (s, errorResponse ErrorWrongID, [])
         else if vesselType = [] then (s, errorResponse ErrorWrongVesselType, [])
         else
           let telemetry = telemetry_of params now;
               s' = s\<lparr>vessels := DAList.update vehId telemetry (vessels s)\<rparr>
           in (s', vesselsResponse now' (vessels s'),
               (case ParseInt vehId 0 of Inl err \<Rightarrow> [LogNotValidVehId vehId] | Inr i \<Rightarrow> [])
               @ [LogSaved vehId (X telemetry) (Y telemetry) (Z telemetry) (Direction telemetry)]))"

definition getTelemetryData :: "int64 \<Rightarrow> state \<Rightarrow> state \<times> response \<times> log_line list" where
  "getTelemetryData now s = (s, vesselsResponse now (vessels s), [])"

definition infoGetHandler :: "string \<Rightarrow> state \<Rightarrow> state \<times> response \<times> log_line list" where
  "infoGetHandler host s =
     (s,
      \<lparr>Content_Type = ''application/json'',
       body = Encode [(''UUID'', AString (UUID (clientInfo s)))]\<rparr>,
      [LogHealthCheck host])"

section \<open>The running program\<close>

text \<open>
  The globals as \<^verbatim>\<open>main\<close> leaves them when it starts the server and the sweeper:
  an empty map, the flag at its initial value, and the fresh identifier \<open>uuid\<close>.
\<close>

definition initial :: "string \<Rightarrow> state" where
  "initial uuid = \<lparr>clientInfo = \<lparr>UUID = uuid\<rparr>, vessels = DAList.empty, cleanupEnabled = True\<rparr>"

text \<open>
  Everything that touches the globals afterwards: a request to one of the three
  endpoints, or a tick of the sweeper (one turn of its endless loop), each with its
  clock readings. The lock makes the accesses to the map atomic, so a run of the
  program is a sequence of such events.
\<close>

datatype event =
    InfoRequest string
  | SetRequest Values int64 int64
  | GetRequest int64
  | SweeperTick int64

fun step :: "state \<Rightarrow> event \<Rightarrow> state" where
  "step s (InfoRequest host) = fst (infoGetHandler host s)"
| "step s (SetRequest params now now') = fst (setVesselTelemetry params now now' s)"
| "step s (GetRequest now) = fst (getTelemetryData now s)"
| "step s (SweeperTick now) = fst (cleanupOldVessels_tick now s)"

definition run :: "string \<Rightarrow> event list \<Rightarrow> state" where
  "run uuid evs = foldl step (initial uuid) evs"

section \<open>Sample data\<close>

text \<open>A record with a given timestamp, and a store of three such records.\<close>

definition sample_record :: "int64 \<Rightarrow> VesselTelemetry" where
  "sample_record t =
     \<lparr>ID = 7, Name = ''n'', Callsign = ''c'', X = Finite 0, Y = Finite 0, Z = Finite 0,
      ABSSpeed = Finite 0, Type = Vessel, Direction = Finite 0, Timestamp = t,
      TgtX = Finite 0, TgtY = Finite 0, TgtZ = Finite 0, HasTgt = False\<rparr>"

definition sample_store :: store where
  "sample_store =
     DAList.update ''a'' (sample_record 4999)
       (DAList.update ''b'' (sample_record 5000)
         (DAList.update ''c'' (sample_record 5001) DAList.empty))"

text \<open>Requests: a complete one, one without \<^verbatim>\<open>veh_id\<close>, one without \<^verbatim>\<open>type\<close>, requests
  that differ in their target, and one with malformed numbers.\<close>

definition sample_params :: Values where
  "sample_params =
     [''veh_id'' \<mapsto> [''42''], ''veh_x'' \<mapsto> [''1.5''], ''veh_y'' \<mapsto> [''2.5''], ''veh_z'' \<mapsto> [''0''],
      ''veh_abs_spd'' \<mapsto> [''10''], ''veh_dir'' \<mapsto> [''90''], ''type'' \<mapsto> [''2''],
      ''tgt_x'' \<mapsto> [''0''], ''tgt_y'' \<mapsto> [''0'']]"

definition no_id_params :: Values where
  "no_id_params = [''type'' \<mapsto> [''2''], ''veh_x'' \<mapsto> [''1.5'']]"

definition no_type_params :: Values where
  "no_type_params = [''veh_id'' \<mapsto> [''42''], ''veh_x'' \<mapsto> [''1.5'']]"

definition target_params :: "string \<Rightarrow> string \<Rightarrow> Values" where
  "target_params tx ty =
     [''veh_id'' \<mapsto> [''42''], ''type'' \<mapsto> [''2''], ''tgt_x'' \<mapsto> [tx], ''tgt_y'' \<mapsto> [ty]]"

definition malformed_params :: Values where
  "malformed_params =
     [''veh_id'' \<mapsto> [''abc''], ''type'' \<mapsto> [''2''], ''veh_x'' \<mapsto> [''notanumber'']]"

text \<open>Requests that differ only in their identifier, with and without a \<^verbatim>\<open>type\<close>; a request
  with a type code outside the enumeration; a second report for vessel 42; and a request
  whose \<^verbatim>\<open>veh_x\<close> is the text \<^verbatim>\<open>nan\<close>.\<close>

definition id_params :: "string \<Rightarrow> Values" where
  "id_params vid = [''veh_id'' \<mapsto> [vid], ''type'' \<mapsto> [''2'']]"

definition id_no_type_params :: "string \<Rightarrow> Values" where
  "id_no_type_params vid = [''veh_id'' \<mapsto> [vid]]"

definition type99_params :: Values where
  "type99_params = [''veh_id'' \<mapsto> [''42''], ''type'' \<mapsto> [''99'']]"

definition second_params :: Values where
  "second_params =
     [''veh_id'' \<mapsto> [''42''], ''veh_x'' \<mapsto> [''3''], ''veh_name'' \<mapsto> [''later''], ''type'' \<mapsto> [''3'']]"

definition nan_params :: Values where
  "nan_params = [''veh_id'' \<mapsto> [''1''], ''type'' \<mapsto> [''2''], ''veh_x'' \<mapsto> [''nan'']]"

section \<open>Records that can be encoded\<close>

text \<open>
  A record can be written as JSON when each of its eight numbers is finite;
  \<open>json_of_vessel\<close> is the object it is then written as.
\<close>

definition is_finite :: "float64 \<Rightarrow> bool" where
  "is_finite f = (case f of Finite q \<Rightarrow> True | _ \<Rightarrow> False)"

definition float64_value :: "float64 \<Rightarrow> rat" where
  "float64_value f = (case f of Finite q \<Rightarrow> q | _ \<Rightarrow> 0)"

definition encodable :: "VesselTelemetry \<Rightarrow> bool" where
  "encodable v =
     (is_finite (X v) \<and> is_finite (Y v) \<and> is_finite (Z v) \<and> is_finite (ABSSpeed v)
      \<and> is_finite (Direction v) \<and> is_finite (TgtX v) \<and> is_finite (TgtY v) \<and> is_finite (TgtZ v))"

definition json_of_vessel :: "VesselTelemetry \<Rightarrow> json" where
  "json_of_vessel v =
     JObject
       [(''id'', JNumber (of_int (sint (ID v)))),
        (''name'', JString (Name v)),
        (''callsign'', JString (Callsign v)),
        (''x'', JNumber (float64_value (X v))),
        (''y'', JNumber (float64_value (Y v))),
        (''z'', JNumber (float64_value (Z v))),
        (''absspeed'', JNumber (float64_value (ABSSpeed v))),
        (''type'', JNumber (of_int (sint (VesselType_ToInt32 (Type v))))),
        (''direction'', JNumber (float64_value (Direction v))),
        (''timestamp'', JNumber (of_int (sint (Timestamp v)))),
        (''tgtx'', JNumber (float64_value (TgtX v))),
        (''tgty'', JNumber (float64_value (TgtY v))),
        (''tgtz'', JNumber (float64_value (TgtZ v))),
        (''hastgt'', JBool (HasTgt v))]"

section \<open>The sweep\<close>

lemma cleanup_range_impl:
  "DAList.impl_of (fst (cleanup_range es th (m, c))) =
     filter (\<lambda>p. fst p \<notin> fst ` {e \<in> set es. sint (Timestamp (snd e)) < sint th}) (DAList.impl_of m)"
proof (induction es arbitrary: m c)
  case Nil
  then show ?case by simp
next
  case (Cons e es)
  obtain k v where e: "e = (k, v)" by (cases e)
  show ?case
  proof (cases "sint (Timestamp v) < sint th")
    case True
    have "DAList.impl_of (fst (cleanup_range (e # es) th (m, c))) =
          filter (\<lambda>p. fst p \<notin> fst ` {e \<in> set es. sint (Timestamp (snd e)) < sint th})
            (DAList.impl_of (DAList.delete k m))"
      using True by (simp add: e Cons.IH)
    also have "\<dots> = filter (\<lambda>p. fst p \<notin> fst ` {e \<in> set es. sint (Timestamp (snd e)) < sint th})
            (filter (\<lambda>p. fst p \<noteq> k) (DAList.impl_of m))"
      by (simp add: DAList.delete.rep_eq AList.delete_eq case_prod_unfold) (auto intro!: filter_cong)
    also have "\<dots> = filter (\<lambda>p. fst p \<notin> fst ` {e' \<in> set (e # es). sint (Timestamp (snd e')) < sint th})
            (DAList.impl_of m)"
      using True by (force simp: e image_iff intro!: filter_cong)
    finally show ?thesis .
  next
    case False
    then show ?thesis
      by (auto simp: e Cons.IH intro!: filter_cong)
  qed
qed

lemma cleanup_range_count:
  "snd (cleanup_range es th (m, c)) = c + length (filter (\<lambda>e. sint (Timestamp (snd e)) < sint th) es)"
  by (induction es arbitrary: m c) auto

lemma map_of_filter_snd:
  "distinct (map fst xs) \<Longrightarrow>
   map_of (filter (\<lambda>p. Q (snd p)) xs) k =
     (case map_of xs k of None \<Rightarrow> None | Some v \<Rightarrow> if Q v then Some v else None)"
proof (induction xs)
  case Nil
  then show ?case by simp
next
  case (Cons p xs)
  obtain k' v' where p: "p = (k', v')" by (cases p)
  from Cons.prems have d: "distinct (map fst xs)" and nk: "k' \<notin> fst ` set xs"
    by (auto simp: p)
  have none: "map_of xs k' = None"
    using nk by (simp add: map_of_eq_None_iff)
  show ?case
    using Cons.IH [OF d] none by (auto simp: p split: option.splits)
qed

lemma sweep_impl:
  "DAList.impl_of (fst (sweep now T vs)) =
     filter (\<lambda>p. \<not> sint (Timestamp (snd p)) < sint (now - T)) (DAList.impl_of vs)"
proof -
  have d: "distinct (map fst (DAList.impl_of vs))" by simp
  have "(fst p \<in> fst ` {e \<in> set (DAList.impl_of vs). sint (Timestamp (snd e)) < sint (now - T)})
            = (sint (Timestamp (snd p)) < sint (now - T))"
    if pin: "p \<in> set (DAList.impl_of vs)" for p
  proof
    assume "fst p \<in> fst ` {e \<in> set (DAList.impl_of vs). sint (Timestamp (snd e)) < sint (now - T)}"
    then obtain e where e: "e \<in> set (DAList.impl_of vs)" "sint (Timestamp (snd e)) < sint (now - T)"
      "fst e = fst p" by auto
    from d e(1) pin e(3) have "e = p"
      by (metis eq_key_imp_eq_value prod.collapse)
    with e(2) show "sint (Timestamp (snd p)) < sint (now - T)" by simp
  next
    assume "sint (Timestamp (snd p)) < sint (now - T)"
    with pin show "fst p \<in> fst ` {e \<in> set (DAList.impl_of vs). sint (Timestamp (snd e)) < sint (now - T)}"
      by auto
  qed
  then show ?thesis
    unfolding sweep_def Let_def cleanup_range_impl
    by (auto intro!: filter_cong)
qed

lemma sweep_count:
  "snd (sweep now T vs) =
     length (filter (\<lambda>p. sint (Timestamp (snd p)) < sint (now - T)) (DAList.impl_of vs))"
  by (simp add: sweep_def cleanup_range_count)

lemma sweep_lookup:
  "DAList.lookup (fst (sweep now T vs)) k =
     (case DAList.lookup vs k of None \<Rightarrow> None
      | Some v \<Rightarrow> if sint (Timestamp v) < sint (now - T) then None else Some v)"
  unfolding DAList.lookup.rep_eq sweep_impl
  using map_of_filter_snd [of "DAList.impl_of vs" "\<lambda>v. \<not> sint (Timestamp v) < sint (now - T)" k]
  by (auto split: option.splits)

lemma sint_diff_in_range:
  fixes a b :: int64
  assumes "- (2 ^ 63) \<le> sint a - sint b" "sint a - sint b < 2 ^ 63"
  shows "sint (a - b) = sint a - sint b"
  using assms by (simp add: sint_word_diff signed_take_bit_int_eq_self)

lemma threshold_millis: "(word_of_int (cleanupThreshold div Millisecond) :: int64) = 5000"
  by (simp add: cleanupThreshold_def Second_def Millisecond_def Microsecond_def)

lemma tick_enabled:
  "cleanupEnabled s \<Longrightarrow>
   cleanupOldVessels_tick now s =
     (s\<lparr>vessels := fst (sweep now 5000 (vessels s))\<rparr>,
      if 0 < snd (sweep now 5000 (vessels s))
      then [LogRemoved (snd (sweep now 5000 (vessels s))) cleanupThreshold,
            LogRemaining (length (DAList.impl_of (fst (sweep now 5000 (vessels s)))))]
      else [])"
  by (simp add: cleanupOldVessels_tick_def threshold_millis case_prod_unfold Let_def)

text \<open>Every clock reading at or after 1970, with the program's 5000 ms, is in the range that
  the next theorem asks for.\<close>

lemma clock_after_epoch_in_range:
  fixes now :: int64
  assumes "0 \<le> sint now"
  shows "- (2 ^ 63) < sint now - sint (5000 :: int64) \<and> sint now - sint (5000 :: int64) < 2 ^ 63 - 1"
proof -
  have "sint now < 2 ^ 63"
    using sint_lt [of now] by simp
  with assms show ?thesis by simp
qed

text \<open>
  C1. Let \<open>now\<close> and \<open>T\<close> be such that \<open>now - T - 1\<close>, \<open>now - T\<close> and \<open>now - T + 1\<close> are
  \<^verbatim>\<open>int64\<close> values (as they are for every clock reading after 1970 and the program's
  5000 ms). Then a sweep removes exactly the records whose timestamp is below \<open>now - T\<close>,
  and counts them: a record stamped \<open>now - T - 1\<close> goes, records stamped \<open>now - T\<close> or
  \<open>now - T + 1\<close> stay. A tick of the enabled sweeper is this sweep with \<open>T\<close> = 5000 ms,
  and it prints the count when it is not zero.
\<close>

theorem sweep_removes_exactly_stale:
  fixes now T :: int64 and vs :: store
  assumes lo: "- (2 ^ 63) < sint now - sint T" and hi: "sint now - sint T < 2 ^ 63 - 1"
  shows "(\<forall>k. DAList.lookup (fst (sweep now T vs)) k =
            (case DAList.lookup vs k of None \<Rightarrow> None
             | Some v \<Rightarrow> if sint (Timestamp v) < sint now - sint T then None else Some v))
       \<and> snd (sweep now T vs) =
            length (filter (\<lambda>(k, v). sint (Timestamp v) < sint now - sint T) (DAList.impl_of vs))
       \<and> (\<forall>k v. DAList.lookup vs k = Some v \<and> Timestamp v = now - T - 1
            \<longrightarrow> DAList.lookup (fst (sweep now T vs)) k = None)
       \<and> (\<forall>k v. DAList.lookup vs k = Some v \<and> (Timestamp v = now - T + 1 \<or> Timestamp v = now - T)
            \<longrightarrow> DAList.lookup (fst (sweep now T vs)) k = Some v)
       \<and> (\<forall>s. cleanupEnabled s \<longrightarrow>
            cleanupOldVessels_tick now s =
              (s\<lparr>vessels := fst (sweep now 5000 (vessels s))\<rparr>,
               if 0 < snd (sweep now 5000 (vessels s))
               then [LogRemoved (snd (sweep now 5000 (vessels s))) cleanupThreshold,
                     LogRemaining (length (DAList.impl_of (fst (sweep now 5000 (vessels s)))))]
               else []))"
proof -
  have th: "sint (now - T) = sint now - sint T"
    using lo hi by (intro sint_diff_in_range) auto
  have m1: "sint (now - T - 1) = sint now - sint T - 1"
    using lo hi th sint_diff_in_range [of "now - T" 1] by simp
  have p1: "sint (now - T + 1) = sint now - sint T + 1"
    using lo hi th by (simp add: sint_word_add signed_take_bit_int_eq_self)
  have "\<forall>s. cleanupEnabled s \<longrightarrow>
            cleanupOldVessels_tick now s =
              (s\<lparr>vessels := fst (sweep now 5000 (vessels s))\<rparr>,
               if 0 < snd (sweep now 5000 (vessels s))
               then [LogRemoved (snd (sweep now 5000 (vessels s))) cleanupThreshold,
                     LogRemaining (length (DAList.impl_of (fst (sweep now 5000 (vessels s)))))]
               else [])"
    using tick_enabled by blast
  moreover have "(\<forall>k. DAList.lookup (fst (sweep now T vs)) k =
            (case DAList.lookup vs k of None \<Rightarrow> None
             | Some v \<Rightarrow> if sint (Timestamp v) < sint now - sint T then None else Some v))
       \<and> snd (sweep now T vs) =
            length (filter (\<lambda>(k, v). sint (Timestamp v) < sint now - sint T) (DAList.impl_of vs))
       \<and> (\<forall>k v. DAList.lookup vs k = Some v \<and> Timestamp v = now - T - 1
            \<longrightarrow> DAList.lookup (fst (sweep now T vs)) k = None)
       \<and> (\<forall>k v. DAList.lookup vs k = Some v \<and> (Timestamp v = now - T + 1 \<or> Timestamp v = now - T)
            \<longrightarrow> DAList.lookup (fst (sweep now T vs)) k = Some v)"
    by (auto simp: sweep_lookup sweep_count th m1 p1 case_prod_unfold split: option.splits)
  ultimately show ?thesis by blast
qed

theorem sweep_removes_exactly_stale_witness:
  "- (2 ^ 63) < sint (10000 :: int64) - sint (5000 :: int64)
   \<and> sint (10000 :: int64) - sint (5000 :: int64) < 2 ^ 63 - 1
   \<and> cleanupEnabled (initial ''u'')
   \<and> DAList.lookup (fst (sweep 10000 5000 sample_store)) ''a'' = None
   \<and> DAList.lookup (fst (sweep 10000 5000 sample_store)) ''b'' = Some (sample_record 5000)
   \<and> DAList.lookup (fst (sweep 10000 5000 sample_store)) ''c'' = Some (sample_record 5001)
   \<and> snd (sweep 10000 5000 sample_store) = 1
   \<and> cleanupOldVessels_tick 10000 (initial ''u'') = (initial ''u'', [])"
proof -
  have lo: "- (2 ^ 63) < sint (10000 :: int64) - sint (5000 :: int64)" by simp
  have hi: "sint (10000 :: int64) - sint (5000 :: int64) < 2 ^ 63 - 1" by simp
  have impl: "DAList.impl_of sample_store =
      [(''c'', sample_record 5001), (''b'', sample_record 5000), (''a'', sample_record 4999)]"
    by (simp add: sample_store_def DAList.update.rep_eq DAList.empty.rep_eq)
  have ts: "Timestamp (sample_record 4999) = 4999" "Timestamp (sample_record 5000) = 5000"
    "Timestamp (sample_record 5001) = 5001"
    by (simp_all add: sample_record_def)
  have lk: "DAList.lookup sample_store ''a'' = Some (sample_record 4999)"
    "DAList.lookup sample_store ''b'' = Some (sample_record 5000)"
    "DAList.lookup sample_store ''c'' = Some (sample_record 5001)"
    by (simp_all add: DAList.lookup.rep_eq impl)
  have en: "cleanupEnabled (initial ''u'')" by (simp add: initial_def)
  have emp: "sweep 10000 5000 (vessels (initial ''u'')) = (DAList.empty, 0)"
    by (simp add: sweep_def initial_def DAList.empty.rep_eq)
  have same: "(initial ''u'')\<lparr>vessels := DAList.empty\<rparr> = initial ''u''"
    by (simp add: initial_def)
  from sweep_removes_exactly_stale [OF lo hi, of sample_store] lo hi en
  show ?thesis
    by (simp add: lk ts impl emp same)
qed

section \<open>The sweeper's flag\<close>

lemma setVesselTelemetry_state:
  "fst (setVesselTelemetry params now now' s) =
     (if Values_Get params ''veh_id'' = [] \<or> Values_Get params ''type'' = [] then s
      else s\<lparr>vessels := DAList.update (Values_Get params ''veh_id'') (telemetry_of params now) (vessels s)\<rparr>)"
  by (simp add: setVesselTelemetry_def Let_def)

lemma step_cleanupEnabled: "cleanupEnabled (step s ev) = cleanupEnabled s"
proof (cases ev)
  case (InfoRequest host)
  then show ?thesis by (simp add: infoGetHandler_def)
next
  case (SetRequest params now now')
  then show ?thesis by (simp add: setVesselTelemetry_state)
next
  case (GetRequest now)
  then show ?thesis by (simp add: getTelemetryData_def)
next
  case (SweeperTick now)
  then show ?thesis
    by (simp add: cleanupOldVessels_tick_def case_prod_unfold Let_def)
qed

lemma foldl_step_cleanupEnabled: "cleanupEnabled (foldl step s evs) = cleanupEnabled s"
  by (induction evs arbitrary: s) (simp_all add: step_cleanupEnabled)

text \<open>
  C10. The flag \<^verbatim>\<open>cleanupEnabled\<close> starts as \<open>True\<close>; no request and no tick changes
  it; so it is \<open>True\<close> in every state the program reaches, and a tick in such a state
  never takes the \<^verbatim>\<open>continue\<close> branch: it sweeps.
\<close>

theorem sweeper_always_enabled:
  "cleanupEnabled (initial uuid)
   \<and> (\<forall>s ev. cleanupEnabled (step s ev) = cleanupEnabled s)
   \<and> cleanupEnabled (run uuid evs)
   \<and> cleanupOldVessels_tick now (run uuid evs) =
       ((run uuid evs)\<lparr>vessels := fst (sweep now 5000 (vessels (run uuid evs)))\<rparr>,
        if 0 < snd (sweep now 5000 (vessels (run uuid evs)))
        then [LogRemoved (snd (sweep now 5000 (vessels (run uuid evs)))) cleanupThreshold,
              LogRemaining (length (DAList.impl_of (fst (sweep now 5000 (vessels (run uuid evs))))))]
        else [])"
proof -
  have init: "cleanupEnabled (initial uuid)" by (simp add: initial_def)
  have reach: "cleanupEnabled (run uuid evs)"
    by (simp add: run_def foldl_step_cleanupEnabled init)
  show ?thesis
    using init reach tick_enabled [OF reach] by (simp add: step_cleanupEnabled)
qed

theorem sweeper_always_enabled_witness:
  "cleanupEnabled (run ''u'' [SetRequest sample_params 1000 1001, SweeperTick 7000, GetRequest 7001])"
  using sweeper_always_enabled
    [of "''u''" "[SetRequest sample_params 1000 1001, SweeperTick 7000, GetRequest 7001]" 0]
  by simp

section \<open>Requests to setVesselTelemetry\<close>

lemma Values_Get_absent: "params k = None \<Longrightarrow> Values_Get params k = []"
  by (simp add: Values_Get_def)

lemma Encode_errorcode:
  "Encode [(''errorcode'', AnInt32 c)] =
     Some (JObject [(''errorcode'', JNumber (of_int (sint c)))])"
  by (simp add: Encode_def Marshal_iface_def)

lemma setVesselTelemetry_accepted:
  assumes "Values_Get params ''veh_id'' \<noteq> []" "Values_Get params ''type'' \<noteq> []"
  shows "setVesselTelemetry params now now' s =
     (s\<lparr>vessels := DAList.update (Values_Get params ''veh_id'') (telemetry_of params now) (vessels s)\<rparr>,
      vesselsResponse now'
        (DAList.update (Values_Get params ''veh_id'') (telemetry_of params now) (vessels s)),
      (case ParseInt (Values_Get params ''veh_id'') 0 of
         Inl err \<Rightarrow> [LogNotValidVehId (Values_Get params ''veh_id'')] | Inr i \<Rightarrow> [])
      @ [LogSaved (Values_Get params ''veh_id'') (X (telemetry_of params now))
           (Y (telemetry_of params now)) (Z (telemetry_of params now))
           (Direction (telemetry_of params now))])"
  using assms by (simp add: setVesselTelemetry_def Let_def)

lemma setVesselTelemetry_lookup:
  assumes "Values_Get params ''veh_id'' \<noteq> []" "Values_Get params ''type'' \<noteq> []"
  shows "DAList.lookup (vessels (fst (setVesselTelemetry params now now' s))) k =
     (if k = Values_Get params ''veh_id'' then Some (telemetry_of params now)
      else DAList.lookup (vessels s) k)"
  using assms by (simp add: setVesselTelemetry_accepted DAList.lookup_update)

lemma telemetry_of_fields:
  "ID (telemetry_of params now) = vehIdInt_of (Values_Get params ''veh_id'')"
  "Name (telemetry_of params now) = Values_Get params ''veh_name''"
  "Callsign (telemetry_of params now) = Values_Get params ''callsign''"
  "X (telemetry_of params now) = parseFloat (Values_Get params ''veh_x'')"
  "Y (telemetry_of params now) = parseFloat (Values_Get params ''veh_y'')"
  "Z (telemetry_of params now) = parseFloat (Values_Get params ''veh_z'')"
  "ABSSpeed (telemetry_of params now) = parseFloat (Values_Get params ''veh_abs_spd'')"
  "Type (telemetry_of params now) = VesselTypeFromInt32 (parseInt32 (Values_Get params ''type''))"
  "Direction (telemetry_of params now) = parseFloat (Values_Get params ''veh_dir'')"
  "Timestamp (telemetry_of params now) = now"
  "TgtX (telemetry_of params now) = parseFloat (Values_Get params ''tgt_x'')"
  "TgtY (telemetry_of params now) = parseFloat (Values_Get params ''tgt_y'')"
  "TgtZ (telemetry_of params now) = parseFloat (Values_Get params ''tgt_z'')"
  "HasTgt (telemetry_of params now) =
     (float64_ne (parseFloat (Values_Get params ''tgt_x'')) (Finite 0)
      \<and> float64_ne (parseFloat (Values_Get params ''tgt_y'')) (Finite 0))"
  by (simp_all add: telemetry_of_def Let_def)

text \<open>
  C3. A request whose \<^verbatim>\<open>veh_id\<close> is absent or empty is answered with the body
  \<^verbatim>\<open>{"errorcode": 1201}\<close> and nothing else, and leaves the state as it was; one with a
  \<^verbatim>\<open>veh_id\<close> whose \<^verbatim>\<open>type\<close> is absent or empty likewise with \<^verbatim>\<open>{"errorcode": 1202}\<close>.
\<close>

theorem missing_field_errors:
  "(params ''veh_id'' = None \<or> Values_Get params ''veh_id'' = [] \<longrightarrow>
      setVesselTelemetry params now now' s =
        (s, \<lparr>Content_Type = ''application/json'',
              body = Some (JObject [(''errorcode'', JNumber 1201)])\<rparr>, []))
   \<and> (Values_Get params ''veh_id'' \<noteq> []
        \<and> (params ''type'' = None \<or> Values_Get params ''type'' = []) \<longrightarrow>
      setVesselTelemetry params now now' s =
        (s, \<lparr>Content_Type = ''application/json'',
              body = Some (JObject [(''errorcode'', JNumber 1202)])\<rparr>, []))"
  by (auto simp: setVesselTelemetry_def errorResponse_def ErrorWrongID_def
      ErrorWrongVesselType_def Encode_errorcode Values_Get_absent)

theorem missing_field_errors_witness:
  "no_id_params ''veh_id'' = None
   \<and> setVesselTelemetry no_id_params 1000 1001 (initial ''u'') =
        (initial ''u'', \<lparr>Content_Type = ''application/json'',
              body = Some (JObject [(''errorcode'', JNumber 1201)])\<rparr>, [])
   \<and> Values_Get no_type_params ''veh_id'' = ''42''
   \<and> no_type_params ''type'' = None
   \<and> setVesselTelemetry no_type_params 1000 1001 (initial ''u'') =
        (initial ''u'', \<lparr>Content_Type = ''application/json'',
              body = Some (JObject [(''errorcode'', JNumber 1202)])\<rparr>, [])"
proof -
  have a: "no_id_params ''veh_id'' = None" by (simp add: no_id_params_def)
  have b: "Values_Get no_type_params ''veh_id'' = ''42''"
    by (simp add: no_type_params_def Values_Get_def)
  have c: "no_type_params ''type'' = None" by (simp add: no_type_params_def)
  from missing_field_errors [of no_id_params 1000 1001 "initial ''u''"]
    missing_field_errors [of no_type_params 1000 1001 "initial ''u''"] a b c
  show ?thesis by simp
qed

section \<open>Parsing the numbers\<close>

lemmas scan_defs = Sscanf_f_def space_width_def byte_def floatToken_def convertFloat_def
  sign_def decimalDigits_def hexadecimalDigits_def period_def exponent_def
  ParseFloat_def special_def readFloat_def readFloat_exponent_def lower_def is_digit_def

lemma bitlen_pos: "0 < x \<Longrightarrow> bitlen x = bitlen (x div 2) + 1"
  using compute_bitlen [of x] by simp

lemma round_float64_5: "round_float64 5 = Some 5"
  by (simp add: round_float64_def binary_exponent_def bitlen_pos pow2_def round_half_even_def)

lemma round_float64_3: "round_float64 3 = Some 3"
  by (simp add: round_float64_def binary_exponent_def bitlen_pos pow2_def round_half_even_def)

lemma parseFloat_0: "parseFloat ''0'' = Finite 0"
  by (simp add: parseFloat_def scan_defs pow10_def round_float64_def)

lemma parseFloat_5: "parseFloat ''5'' = Finite 5"
  by (simp add: parseFloat_def scan_defs pow10_def round_float64_5)

lemma parseFloat_3: "parseFloat ''3'' = Finite 3"
  by (simp add: parseFloat_def scan_defs pow10_def round_float64_3)

lemma Sscanf_f_empty: "Sscanf_f [] = Inl ErrEOF"
  by (simp add: Sscanf_f_def)

lemma Sscanf_f_notanumber: "Sscanf_f ''notanumber'' = Inl ErrSyntax"
  by (simp add: scan_defs)

lemma parseFloat_unparseable: "isl (Sscanf_f str) \<Longrightarrow> parseFloat str = Finite 0"
  by (cases "Sscanf_f str") (simp_all add: parseFloat_def)

lemma parseFloat_absent: "params k = None \<Longrightarrow> parseFloat (Values_Get params k) = Finite 0"
  by (simp add: Values_Get_absent parseFloat_def Sscanf_f_empty)

lemma float64_ne_zero: "float64_ne f (Finite 0) = (f \<noteq> Finite 0)"
  by (auto simp: float64_ne_def)

lemma target_params_Get:
  "Values_Get (target_params tx ty) ''veh_id'' = ''42''"
  "Values_Get (target_params tx ty) ''type'' = ''2''"
  "Values_Get (target_params tx ty) ''tgt_x'' = tx"
  "Values_Get (target_params tx ty) ''tgt_y'' = ty"
  by (simp_all add: target_params_def Values_Get_def)

lemma malformed_params_Get:
  "Values_Get malformed_params ''veh_id'' = ''abc''"
  "Values_Get malformed_params ''type'' = ''2''"
  "Values_Get malformed_params ''veh_x'' = ''notanumber''"
  "malformed_params ''veh_y'' = None"
  by (simp_all add: malformed_params_def Values_Get_def)

text \<open>
  C4. A request that is accepted (\<^verbatim>\<open>veh_id\<close> and \<^verbatim>\<open>type\<close> not empty) stores a record
  whose \<^verbatim>\<open>HasTgt\<close> is: parsed \<^verbatim>\<open>tgt_x\<close> differs from zero and parsed \<^verbatim>\<open>tgt_y\<close> differs
  from zero. So \<^verbatim>\<open>tgt_x=0&tgt_y=5\<close> gives false, \<^verbatim>\<open>tgt_x=3&tgt_y=5\<close> gives true and
  \<^verbatim>\<open>tgt_x=0&tgt_y=0\<close> gives false.
\<close>

theorem hasTarget_derivation:
  assumes "Values_Get params ''veh_id'' \<noteq> []" and "Values_Get params ''type'' \<noteq> []"
  shows "DAList.lookup (vessels (fst (setVesselTelemetry params now now' s)))
                (Values_Get params ''veh_id'') = Some (telemetry_of params now)
       \<and> TgtX (telemetry_of params now) = parseFloat (Values_Get params ''tgt_x'')
       \<and> TgtY (telemetry_of params now) = parseFloat (Values_Get params ''tgt_y'')
       \<and> HasTgt (telemetry_of params now) =
           (float64_ne (parseFloat (Values_Get params ''tgt_x'')) (Finite 0)
            \<and> float64_ne (parseFloat (Values_Get params ''tgt_y'')) (Finite 0))
       \<and> HasTgt (telemetry_of params now) =
           (parseFloat (Values_Get params ''tgt_x'') \<noteq> Finite 0
            \<and> parseFloat (Values_Get params ''tgt_y'') \<noteq> Finite 0)
       \<and> (Values_Get params ''tgt_x'' = ''0'' \<and> Values_Get params ''tgt_y'' = ''5''
            \<longrightarrow> \<not> HasTgt (telemetry_of params now))
       \<and> (Values_Get params ''tgt_x'' = ''3'' \<and> Values_Get params ''tgt_y'' = ''5''
            \<longrightarrow> HasTgt (telemetry_of params now))
       \<and> (Values_Get params ''tgt_x'' = ''0'' \<and> Values_Get params ''tgt_y'' = ''0''
            \<longrightarrow> \<not> HasTgt (telemetry_of params now))"
  using assms
  by (simp add: setVesselTelemetry_lookup telemetry_of_fields float64_ne_zero
      parseFloat_0 parseFloat_3 parseFloat_5)

theorem hasTarget_derivation_witness:
  "Values_Get (target_params ''0'' ''5'') ''veh_id'' \<noteq> []
   \<and> Values_Get (target_params ''0'' ''5'') ''type'' \<noteq> []
   \<and> DAList.lookup (vessels (fst (setVesselTelemetry (target_params ''0'' ''5'') 1000 1001
         (initial ''u'')))) ''42'' = Some (telemetry_of (target_params ''0'' ''5'') 1000)
   \<and> \<not> HasTgt (telemetry_of (target_params ''0'' ''5'') 1000)
   \<and> HasTgt (telemetry_of (target_params ''3'' ''5'') 1000)
   \<and> \<not> HasTgt (telemetry_of (target_params ''0'' ''0'') 1000)"
proof -
  have a: "Values_Get (target_params tx ty) ''veh_id'' \<noteq> []"
    and b: "Values_Get (target_params tx ty) ''type'' \<noteq> []" for tx ty
    by (simp_all add: target_params_Get)
  from hasTarget_derivation [OF a b, of "''0''" "''5''" 1000 1001 "initial ''u''"]
    hasTarget_derivation [OF a b, of "''3''" "''5''" 1000 1001 "initial ''u''"]
    hasTarget_derivation [OF a b, of "''0''" "''0''" 1000 1001 "initial ''u''"]
  show ?thesis
    by (simp add: target_params_Get parseFloat_0 parseFloat_3 parseFloat_5 float64_ne_zero)
qed

text \<open>A string that starts with a printable character with which no number starts holds
  no number for \<^verbatim>\<open>Sscanf\<close>.\<close>

lemma floatToken_no_start:
  assumes "c \<notin> set ''+-.0123456789_eEiInNpP''"
  shows "floatToken (c # cs) = []"
  using assms
  by (simp add: floatToken_def sign_def decimalDigits_def hexadecimalDigits_def period_def
      exponent_def)

lemma space_width_printable:
  assumes "33 \<le> byte c" and "byte c \<le> 126"
  shows "space_width (c # cs) = 0"
proof -
  have "take 1 (map byte (c # cs)) = [byte c]" by simp
  moreover have "\<exists>bs. take 2 (map byte (c # cs)) = byte c # bs"
    by (cases cs) simp_all
  moreover have "\<exists>bs. take 3 (map byte (c # cs)) = byte c # bs"
    by (cases cs) simp_all
  ultimately show ?thesis
    using assms unfolding space_width_def Let_def by auto
qed

lemma Sscanf_f_no_start:
  assumes "33 \<le> byte c" and "byte c \<le> 126" and "c \<notin> set ''+-.0123456789_eEiInNpP''"
  shows "Sscanf_f (c # cs) = Inl ErrSyntax"
proof -
  have nl: "c \<noteq> CHR 0x0A"
    using assms(1) by (auto simp: byte_def)
  show ?thesis
    using nl space_width_printable [OF assms(1,2), of cs]
    by (simp add: Sscanf_f_def floatToken_no_start [OF assms(3)] convertFloat_def ParseFloat_def
        special_def readFloat_def)
qed

text \<open>
  C5. In an accepted request, a position, speed, direction or target parameter that is
  absent, or from which \<^verbatim>\<open>Sscanf\<close> cannot read a number, is stored as \<open>0.0\<close>; the
  request is not rejected for it: the record is stored and the answer is the list of
  vessels. \<^verbatim>\<open>notanumber\<close> is such a parameter, and so is every string that starts with
  a printable character with which no number starts.
\<close>

theorem malformed_numbers_coerce_to_zero:
  assumes "Values_Get params ''veh_id'' \<noteq> []" and "Values_Get params ''type'' \<noteq> []"
  shows "fst (setVesselTelemetry params now now' s) =
            s\<lparr>vessels := DAList.update (Values_Get params ''veh_id'') (telemetry_of params now) (vessels s)\<rparr>
       \<and> fst (snd (setVesselTelemetry params now now' s)) =
            vesselsResponse now'
              (DAList.update (Values_Get params ''veh_id'') (telemetry_of params now) (vessels s))
       \<and> (params ''veh_x'' = None \<or> isl (Sscanf_f (Values_Get params ''veh_x''))
            \<longrightarrow> X (telemetry_of params now) = Finite 0)
       \<and> (params ''veh_y'' = None \<or> isl (Sscanf_f (Values_Get params ''veh_y''))
            \<longrightarrow> Y (telemetry_of params now) = Finite 0)
       \<and> (params ''veh_z'' = None \<or> isl (Sscanf_f (Values_Get params ''veh_z''))
            \<longrightarrow> Z (telemetry_of params now) = Finite 0)
       \<and> (params ''veh_abs_spd'' = None \<or> isl (Sscanf_f (Values_Get params ''veh_abs_spd''))
            \<longrightarrow> ABSSpeed (telemetry_of params now) = Finite 0)
       \<and> (params ''veh_dir'' = None \<or> isl (Sscanf_f (Values_Get params ''veh_dir''))
            \<longrightarrow> Direction (telemetry_of params now) = Finite 0)
       \<and> (params ''tgt_x'' = None \<or> isl (Sscanf_f (Values_Get params ''tgt_x''))
            \<longrightarrow> TgtX (telemetry_of params now) = Finite 0)
       \<and> (params ''tgt_y'' = None \<or> isl (Sscanf_f (Values_Get params ''tgt_y''))
            \<longrightarrow> TgtY (telemetry_of params now) = Finite 0)
       \<and> (params ''tgt_z'' = None \<or> isl (Sscanf_f (Values_Get params ''tgt_z''))
            \<longrightarrow> TgtZ (telemetry_of params now) = Finite 0)
       \<and> isl (Sscanf_f ''notanumber'')
       \<and> (Values_Get params ''veh_x'' = ''notanumber'' \<longrightarrow> X (telemetry_of params now) = Finite 0)
       \<and> (\<forall>c cs. 33 \<le> byte c \<and> byte c \<le> 126 \<and> c \<notin> set ''+-.0123456789_eEiInNpP''
            \<longrightarrow> isl (Sscanf_f (c # cs)))"
proof -
  have z: "params k = None \<or> isl (Sscanf_f (Values_Get params k))
      \<longrightarrow> parseFloat (Values_Get params k) = Finite 0" for k
    using parseFloat_unparseable parseFloat_absent by blast
  have n: "parseFloat ''notanumber'' = Finite 0"
    by (simp add: parseFloat_def Sscanf_f_notanumber)
  have p: "\<forall>c cs. 33 \<le> byte c \<and> byte c \<le> 126 \<and> c \<notin> set ''+-.0123456789_eEiInNpP''
            \<longrightarrow> isl (Sscanf_f (c # cs))"
    using Sscanf_f_no_start by (metis sum.disc(1))
  have "fst (setVesselTelemetry params now now' s) =
            s\<lparr>vessels := DAList.update (Values_Get params ''veh_id'') (telemetry_of params now) (vessels s)\<rparr>
       \<and> fst (snd (setVesselTelemetry params now now' s)) =
            vesselsResponse now'
              (DAList.update (Values_Get params ''veh_id'') (telemetry_of params now) (vessels s))"
    using assms by (simp add: setVesselTelemetry_accepted)
  moreover have "isl (Sscanf_f ''notanumber'')"
    by (simp add: Sscanf_f_notanumber)
  ultimately show ?thesis
    using z n p by (simp add: telemetry_of_fields)
qed

theorem malformed_numbers_coerce_to_zero_witness:
  "Values_Get malformed_params ''veh_id'' \<noteq> []
   \<and> Values_Get malformed_params ''type'' \<noteq> []
   \<and> isl (Sscanf_f (Values_Get malformed_params ''veh_x''))
   \<and> malformed_params ''veh_y'' = None
   \<and> fst (setVesselTelemetry malformed_params 1000 1001 (initial ''u'')) =
        (initial ''u'')\<lparr>vessels := DAList.update ''abc'' (telemetry_of malformed_params 1000)
                          (vessels (initial ''u''))\<rparr>
   \<and> X (telemetry_of malformed_params 1000) = Finite 0
   \<and> Y (telemetry_of malformed_params 1000) = Finite 0"
proof -
  have a: "Values_Get malformed_params ''veh_id'' \<noteq> []"
    and b: "Values_Get malformed_params ''type'' \<noteq> []"
    by (simp_all add: malformed_params_Get)
  have c: "isl (Sscanf_f (Values_Get malformed_params ''veh_x''))"
    by (simp add: malformed_params_Get Sscanf_f_notanumber)
  have d: "malformed_params ''veh_y'' = None"
    by (simp add: malformed_params_Get)
  from malformed_numbers_coerce_to_zero [OF a b, of 1000 1001 "initial ''u''"] a b c d
  show ?thesis
    by (simp add: malformed_params_Get)
qed

section \<open>The identifier\<close>

lemmas int_defs = ParseInt_def ParseUint_def lower_def byte_def is_digit_def

lemma ParseInt_abc: "ParseInt ''abc'' 0 = Inl ErrSyntax"
  by (simp add: int_defs)

lemma ParseInt_xyz: "ParseInt ''xyz'' 0 = Inl ErrSyntax"
  by (simp add: int_defs)

lemma ParseInt_16: "ParseInt ''16'' 0 = Inr 16"
  by (simp add: int_defs)

lemma ParseInt_0x10: "ParseInt ''0x10'' 0 = Inr 16"
  by (simp add: int_defs)

lemma parseInt32_99: "parseInt32 ''99'' = 99"
  by (simp add: parseInt32_def Sscanf_d_def space_width_def sign_def decimalDigits_def int_defs)

lemma vehIdInt_of_unparseable: "isl (ParseInt vehId 0) \<Longrightarrow> vehIdInt_of vehId = - 1"
  by (cases "ParseInt vehId 0") (simp_all add: vehIdInt_of_def)

lemma vehIdInt_of_examples:
  "vehIdInt_of ''abc'' = - 1" "vehIdInt_of ''xyz'' = - 1"
  "vehIdInt_of ''16'' = 16" "vehIdInt_of ''0x10'' = 16"
  by (simp_all add: vehIdInt_of_def ParseInt_abc ParseInt_xyz ParseInt_16 ParseInt_0x10)

lemma id_params_Get:
  "Values_Get (id_params vid) ''veh_id'' = vid"
  "Values_Get (id_params vid) ''type'' = ''2''"
  "Values_Get (id_no_type_params vid) ''veh_id'' = vid"
  "Values_Get (id_no_type_params vid) ''type'' = []"
  by (simp_all add: id_params_def id_no_type_params_def Values_Get_def)

text \<open>A string that starts with neither a digit, a sign nor an underscore is no integer for
  \<^verbatim>\<open>ParseInt\<close>.\<close>

lemma ParseInt_no_start:
  assumes "\<not> is_digit c" and "c \<notin> set ''+-_''"
  shows "ParseInt (c # cs) 0 = Inl ErrSyntax"
proof -
  have c0: "c \<noteq> CHR ''0''"
    using assms(1) by (auto simp: is_digit_def byte_def)
  have c1: "c \<noteq> CHR ''+''" "c \<noteq> CHR ''-''" "c \<noteq> CHR ''_''"
    using assms(2) by auto
  show ?thesis
    using assms(1) c0 c1 by (auto simp: ParseInt_def ParseUint_def Let_def)
qed

text \<open>
  C6, as stated, fails: the request \<^verbatim>\<open>veh_id=abc\<close> with no \<^verbatim>\<open>type\<close> has a non-empty
  identifier that \<^verbatim>\<open>ParseInt\<close> rejects, yet it is not accepted. Nothing is stored under
  \<^verbatim>\<open>abc\<close> and the answer is \<^verbatim>\<open>{"errorcode": 1202}\<close>.
\<close>

theorem unparseable_id_without_type_counterexample:
  "Values_Get (id_no_type_params ''abc'') ''veh_id'' = ''abc''
   \<and> isl (ParseInt ''abc'' 0)
   \<and> DAList.lookup
        (vessels (fst (setVesselTelemetry (id_no_type_params ''abc'') 1000 1001 (initial ''u''))))
        ''abc'' = None
   \<and> body (fst (snd (setVesselTelemetry (id_no_type_params ''abc'') 1000 1001 (initial ''u'')))) =
        Some (JObject [(''errorcode'', JNumber 1202)])"
  by (simp add: id_params_Get ParseInt_abc setVesselTelemetry_def errorResponse_def
      ErrorWrongVesselType_def Encode_errorcode initial_def)

text \<open>
  C6, amended. A request whose \<^verbatim>\<open>veh_id\<close> is not empty and is rejected by
  \<^verbatim>\<open>ParseInt(vehId, 0, 64)\<close>, and whose \<^verbatim>\<open>type\<close> is not empty, is accepted: its record is
  stored under the raw \<^verbatim>\<open>veh_id\<close> string, with \<^verbatim>\<open>ID\<close> \<open>-1\<close>, and the answer is the list
  of vessels. Every string that starts with neither a digit, a sign nor an underscore is
  rejected by \<^verbatim>\<open>ParseInt\<close>, \<^verbatim>\<open>abc\<close> for one.
\<close>

theorem unparseable_id_stored_as_minus_one:
  assumes "Values_Get params ''veh_id'' \<noteq> []" and "Values_Get params ''type'' \<noteq> []"
    and "isl (ParseInt (Values_Get params ''veh_id'') 0)"
  shows "fst (setVesselTelemetry params now now' s) =
            s\<lparr>vessels := DAList.update (Values_Get params ''veh_id'') (telemetry_of params now) (vessels s)\<rparr>
       \<and> fst (snd (setVesselTelemetry params now now' s)) =
            vesselsResponse now'
              (DAList.update (Values_Get params ''veh_id'') (telemetry_of params now) (vessels s))
       \<and> DAList.lookup (vessels (fst (setVesselTelemetry params now now' s)))
            (Values_Get params ''veh_id'') = Some (telemetry_of params now)
       \<and> ID (telemetry_of params now) = - 1
       \<and> (\<forall>c cs. \<not> is_digit c \<and> c \<notin> set ''+-_'' \<longrightarrow> isl (ParseInt (c # cs) 0))"
proof -
  have p: "\<forall>c cs. \<not> is_digit c \<and> c \<notin> set ''+-_'' \<longrightarrow> isl (ParseInt (c # cs) 0)"
    using ParseInt_no_start by (metis sum.disc(1))
  show ?thesis
    using assms p
    by (simp add: setVesselTelemetry_accepted telemetry_of_fields vehIdInt_of_unparseable)
qed

theorem unparseable_id_stored_as_minus_one_witness:
  "Values_Get (id_params ''abc'') ''veh_id'' \<noteq> []
   \<and> Values_Get (id_params ''abc'') ''type'' \<noteq> []
   \<and> isl (ParseInt (Values_Get (id_params ''abc'') ''veh_id'') 0)
   \<and> DAList.lookup (vessels (fst (setVesselTelemetry (id_params ''abc'') 1000 1001 (initial ''u''))))
        ''abc'' = Some (telemetry_of (id_params ''abc'') 1000)
   \<and> ID (telemetry_of (id_params ''abc'') 1000) = - 1"
proof -
  have a: "Values_Get (id_params ''abc'') ''veh_id'' \<noteq> []"
    and b: "Values_Get (id_params ''abc'') ''type'' \<noteq> []"
    and c: "isl (ParseInt (Values_Get (id_params ''abc'') ''veh_id'') 0)"
    by (simp_all add: id_params_Get ParseInt_abc)
  from unparseable_id_stored_as_minus_one [OF a b c, of 1000 1001 "initial ''u''"] a b c
  show ?thesis by (simp add: id_params_Get)
qed

text \<open>
  C9, as stated, fails for the same reason: the requests \<^verbatim>\<open>veh_id=abc\<close> and
  \<^verbatim>\<open>veh_id=xyz\<close>, neither with a \<^verbatim>\<open>type\<close>, have distinct non-empty identifiers that
  both stand for \<open>-1\<close>, and the store holds no record after them.
\<close>

theorem same_number_without_type_counterexample:
  "Values_Get (id_no_type_params ''abc'') ''veh_id'' = ''abc''
   \<and> Values_Get (id_no_type_params ''xyz'') ''veh_id'' = ''xyz''
   \<and> vehIdInt_of ''abc'' = vehIdInt_of ''xyz''
   \<and> DAList.impl_of (vessels (fst (setVesselTelemetry (id_no_type_params ''xyz'') 1002 1003
        (fst (setVesselTelemetry (id_no_type_params ''abc'') 1000 1001 (initial ''u'')))))) = []"
  by (simp add: id_params_Get vehIdInt_of_examples setVesselTelemetry_state initial_def
      DAList.empty.rep_eq)

lemma two_keys_two_entries:
  assumes "map_of al k1 = Some v1" and "map_of al k2 = Some v2" and "k1 \<noteq> k2"
  shows "2 \<le> length al"
proof -
  have "{(k1, v1), (k2, v2)} \<subseteq> set al"
    using assms by (auto dest: map_of_SomeD)
  then have "card {(k1, v1), (k2, v2)} \<le> card (set al)"
    by (intro card_mono) auto
  moreover have "card {(k1, v1), (k2, v2)} = 2"
    using assms(3) by simp
  moreover have "card (set al) \<le> length al"
    by (rule card_length)
  ultimately show ?thesis by linarith
qed

text \<open>
  C9, amended. The store is keyed by the raw \<^verbatim>\<open>veh_id\<close> string, not by the number in
  \<^verbatim>\<open>ID\<close>: two accepted requests (each with a non-empty \<^verbatim>\<open>type\<close>) whose non-empty
  identifiers differ as strings but stand for the same number (two strings
  \<^verbatim>\<open>ParseInt\<close> rejects, or \<^verbatim>\<open>16\<close> and \<^verbatim>\<open>0x10\<close>), handled one after the other, leave two
  records in the store, one under each string, with equal \<^verbatim>\<open>ID\<close>.
\<close>

theorem raw_id_keys_the_store:
  assumes "Values_Get p1 ''veh_id'' \<noteq> []" and "Values_Get p2 ''veh_id'' \<noteq> []"
    and "Values_Get p1 ''veh_id'' \<noteq> Values_Get p2 ''veh_id''"
    and "Values_Get p1 ''type'' \<noteq> []" and "Values_Get p2 ''type'' \<noteq> []"
    and "vehIdInt_of (Values_Get p1 ''veh_id'') = vehIdInt_of (Values_Get p2 ''veh_id'')"
  shows "DAList.lookup
           (vessels (fst (setVesselTelemetry p2 t2 t2' (fst (setVesselTelemetry p1 t1 t1' s)))))
           (Values_Get p1 ''veh_id'') = Some (telemetry_of p1 t1)
       \<and> DAList.lookup
           (vessels (fst (setVesselTelemetry p2 t2 t2' (fst (setVesselTelemetry p1 t1 t1' s)))))
           (Values_Get p2 ''veh_id'') = Some (telemetry_of p2 t2)
       \<and> 2 \<le> length (DAList.impl_of
           (vessels (fst (setVesselTelemetry p2 t2 t2' (fst (setVesselTelemetry p1 t1 t1' s))))))
       \<and> ID (telemetry_of p1 t1) = ID (telemetry_of p2 t2)
       \<and> ID (telemetry_of p1 t1) = vehIdInt_of (Values_Get p1 ''veh_id'')"
proof -
  have l1: "DAList.lookup
           (vessels (fst (setVesselTelemetry p2 t2 t2' (fst (setVesselTelemetry p1 t1 t1' s)))))
           (Values_Get p1 ''veh_id'') = Some (telemetry_of p1 t1)"
    and l2: "DAList.lookup
           (vessels (fst (setVesselTelemetry p2 t2 t2' (fst (setVesselTelemetry p1 t1 t1' s)))))
           (Values_Get p2 ''veh_id'') = Some (telemetry_of p2 t2)"
    using assms by (simp_all add: setVesselTelemetry_lookup)
  have "2 \<le> length (DAList.impl_of
           (vessels (fst (setVesselTelemetry p2 t2 t2' (fst (setVesselTelemetry p1 t1 t1' s))))))"
    using l1 l2 assms(3) unfolding DAList.lookup.rep_eq by (rule two_keys_two_entries)
  with l1 l2 assms(6) show ?thesis
    by (simp add: telemetry_of_fields)
qed

theorem raw_id_keys_the_store_witness:
  "Values_Get (id_params ''16'') ''veh_id'' \<noteq> []
   \<and> Values_Get (id_params ''0x10'') ''veh_id'' \<noteq> []
   \<and> Values_Get (id_params ''16'') ''veh_id'' \<noteq> Values_Get (id_params ''0x10'') ''veh_id''
   \<and> Values_Get (id_params ''16'') ''type'' \<noteq> []
   \<and> Values_Get (id_params ''0x10'') ''type'' \<noteq> []
   \<and> vehIdInt_of (Values_Get (id_params ''16'') ''veh_id'') =
       vehIdInt_of (Values_Get (id_params ''0x10'') ''veh_id'')
   \<and> DAList.lookup
         (vessels (fst (setVesselTelemetry (id_params ''0x10'') 1002 1003
            (fst (setVesselTelemetry (id_params ''16'') 1000 1001 (initial ''u''))))))
         ''16'' = Some (telemetry_of (id_params ''16'') 1000)
   \<and> DAList.lookup
         (vessels (fst (setVesselTelemetry (id_params ''0x10'') 1002 1003
            (fst (setVesselTelemetry (id_params ''16'') 1000 1001 (initial ''u''))))))
         ''0x10'' = Some (telemetry_of (id_params ''0x10'') 1002)
   \<and> ID (telemetry_of (id_params ''16'') 1000) = 16
   \<and> ID (telemetry_of (id_params ''0x10'') 1002) = 16"
proof -
  have a: "Values_Get (id_params ''16'') ''veh_id'' \<noteq> []"
    and b: "Values_Get (id_params ''0x10'') ''veh_id'' \<noteq> []"
    and c: "Values_Get (id_params ''16'') ''veh_id'' \<noteq> Values_Get (id_params ''0x10'') ''veh_id''"
    and d: "Values_Get (id_params ''16'') ''type'' \<noteq> []"
    and e: "Values_Get (id_params ''0x10'') ''type'' \<noteq> []"
    and f: "vehIdInt_of (Values_Get (id_params ''16'') ''veh_id'') =
       vehIdInt_of (Values_Get (id_params ''0x10'') ''veh_id'')"
    by (simp_all add: id_params_Get vehIdInt_of_examples)
  from raw_id_keys_the_store [OF a b c d e f, of 1002 1003 1000 1001 "initial ''u''"] a b c d e f
  show ?thesis
    by (simp add: id_params_Get vehIdInt_of_examples telemetry_of_fields)
qed

section \<open>The vessel type\<close>

text \<open>
  C8. \<^verbatim>\<open>VesselType\<close> is an open type over \<^verbatim>\<open>int32\<close>: converting any code \<open>c\<close> to a
  \<^verbatim>\<open>VesselType\<close> and back gives \<open>c\<close>, inside or outside 1..4; so the record of an
  accepted request carries the code that \<^verbatim>\<open>parseInt32\<close> read from \<^verbatim>\<open>type\<close>, as it is.
\<close>

theorem vessel_type_passes_through:
  "VesselType_ToInt32 (VesselTypeFromInt32 c) = c
   \<and> (Values_Get params ''veh_id'' \<noteq> [] \<and> Values_Get params ''type'' \<noteq> [] \<longrightarrow>
        DAList.lookup (vessels (fst (setVesselTelemetry params now now' s)))
          (Values_Get params ''veh_id'') = Some (telemetry_of params now)
        \<and> VesselType_ToInt32 (Type (telemetry_of params now)) = parseInt32 (Values_Get params ''type''))"
  by (simp add: VesselTypeFromInt32_def setVesselTelemetry_lookup telemetry_of_fields)

theorem vessel_type_passes_through_witness:
  "VesselType_ToInt32 (VesselTypeFromInt32 99) = 99
   \<and> VesselType_ToInt32 (VesselTypeFromInt32 (- 7)) = - 7
   \<and> Values_Get type99_params ''veh_id'' \<noteq> []
   \<and> Values_Get type99_params ''type'' \<noteq> []
   \<and> DAList.lookup (vessels (fst (setVesselTelemetry type99_params 1000 1001 (initial ''u''))))
        ''42'' = Some (telemetry_of type99_params 1000)
   \<and> VesselType_ToInt32 (Type (telemetry_of type99_params 1000)) = 99"
proof -
  have g: "Values_Get type99_params ''veh_id'' = ''42''" "Values_Get type99_params ''type'' = ''99''"
    by (simp_all add: type99_params_def Values_Get_def)
  from vessel_type_passes_through [of 99 type99_params 1000 1001 "initial ''u''"]
    vessel_type_passes_through [of "- 7" type99_params 1000 1001 "initial ''u''"]
  show ?thesis by (simp add: g parseInt32_99)
qed

section \<open>Upserts\<close>

lemma filter_key_update:
  "distinct (map fst al) \<Longrightarrow> filter (\<lambda>e. fst e = k) (AList.update k v al) = [(k, v)]"
proof (induction al)
  case Nil
  then show ?case by simp
next
  case (Cons p al)
  obtain k' v' where p: "p = (k', v')" by (cases p)
  show ?case
  proof (cases "k' = k")
    case True
    with Cons.prems have "k \<notin> fst ` set al" by (auto simp: p)
    then have "filter (\<lambda>e. fst e = k) al = []"
      by (auto simp: filter_empty_conv)
    with True show ?thesis by (simp add: p)
  next
    case False
    with Cons show ?thesis by (simp add: p)
  qed
qed

lemma filter_key_distinct:
  "distinct (map fst al) \<Longrightarrow> length (filter (\<lambda>e. fst e = k) al) \<le> 1"
proof (induction al)
  case Nil
  then show ?case by simp
next
  case (Cons p al)
  show ?case
  proof (cases "fst p = k")
    case True
    with Cons.prems have "k \<notin> fst ` set al" by auto
    then have "filter (\<lambda>e. fst e = k) al = []"
      by (auto simp: filter_empty_conv)
    with True show ?thesis by simp
  next
    case False
    with Cons show ?thesis by simp
  qed
qed

lemma range_append_map: "range_append es acc = acc @ map snd es"
  by (induction es arbitrary: acc) auto

lemma sample_params_Get:
  "Values_Get sample_params ''veh_id'' = ''42''"
  "Values_Get sample_params ''type'' = ''2''"
  "Values_Get second_params ''veh_id'' = ''42''"
  "Values_Get second_params ''type'' = ''3''"
  "Values_Get second_params ''veh_x'' = ''3''"
  "Values_Get second_params ''veh_name'' = ''later''"
  by (simp_all add: sample_params_def second_params_def Values_Get_def)

text \<open>
  C2. After any sequence of requests and ticks the store holds at most one record per
  identifier. Two accepted requests for the same identifier \<open>vid\<close>, whatever happens
  between them: after the second, the store holds exactly one entry for \<open>vid\<close>, the
  record built from the second request alone, and the snapshot sent back lists the
  records of the store, one per entry; its timestamp is the second clock reading, which
  is not before the first when the clock did not go back.
\<close>

theorem upsert_replaces:
  assumes "Values_Get p1 ''veh_id'' = vid" and "Values_Get p2 ''veh_id'' = vid" and "vid \<noteq> []"
    and "Values_Get p1 ''type'' \<noteq> []" and "Values_Get p2 ''type'' \<noteq> []"
  shows "(\<forall>k. length (filter (\<lambda>e. fst e = k) (DAList.impl_of (vessels (foldl step s evs)))) \<le> 1)
       \<and> DAList.lookup (vessels (fst (setVesselTelemetry p1 t1 t1' s))) vid = Some (telemetry_of p1 t1)
       \<and> filter (\<lambda>e. fst e = vid)
            (DAList.impl_of (vessels (fst (setVesselTelemetry p2 t2 t2'
               (foldl step (fst (setVesselTelemetry p1 t1 t1' s)) evs)))))
           = [(vid, telemetry_of p2 t2)]
       \<and> fst (snd (setVesselTelemetry p2 t2 t2' (foldl step (fst (setVesselTelemetry p1 t1 t1' s)) evs)))
           = vesselsResponse t2' (vessels (fst (setVesselTelemetry p2 t2 t2'
               (foldl step (fst (setVesselTelemetry p1 t1 t1' s)) evs))))
       \<and> range_append (DAList.impl_of (vessels (fst (setVesselTelemetry p2 t2 t2'
               (foldl step (fst (setVesselTelemetry p1 t1 t1' s)) evs))))) []
           = map snd (DAList.impl_of (vessels (fst (setVesselTelemetry p2 t2 t2'
               (foldl step (fst (setVesselTelemetry p1 t1 t1' s)) evs)))))
       \<and> Timestamp (telemetry_of p1 t1) = t1
       \<and> Timestamp (telemetry_of p2 t2) = t2
       \<and> (sint t1 \<le> sint t2 \<longrightarrow> sint (Timestamp (telemetry_of p1 t1)) \<le> sint (Timestamp (telemetry_of p2 t2)))"
proof -
  have one: "\<forall>k. length (filter (\<lambda>e. fst e = k) (DAList.impl_of (vessels (foldl step s evs)))) \<le> 1"
    by (intro allI filter_key_distinct DAList.impl_of_distinct)
  have rest: "DAList.lookup (vessels (fst (setVesselTelemetry p1 t1 t1' s))) vid = Some (telemetry_of p1 t1)
       \<and> filter (\<lambda>e. fst e = vid)
            (DAList.impl_of (vessels (fst (setVesselTelemetry p2 t2 t2'
               (foldl step (fst (setVesselTelemetry p1 t1 t1' s)) evs)))))
           = [(vid, telemetry_of p2 t2)]
       \<and> fst (snd (setVesselTelemetry p2 t2 t2' (foldl step (fst (setVesselTelemetry p1 t1 t1' s)) evs)))
           = vesselsResponse t2' (vessels (fst (setVesselTelemetry p2 t2 t2'
               (foldl step (fst (setVesselTelemetry p1 t1 t1' s)) evs))))
       \<and> range_append (DAList.impl_of (vessels (fst (setVesselTelemetry p2 t2 t2'
               (foldl step (fst (setVesselTelemetry p1 t1 t1' s)) evs))))) []
           = map snd (DAList.impl_of (vessels (fst (setVesselTelemetry p2 t2 t2'
               (foldl step (fst (setVesselTelemetry p1 t1 t1' s)) evs)))))
       \<and> Timestamp (telemetry_of p1 t1) = t1
       \<and> Timestamp (telemetry_of p2 t2) = t2
       \<and> (sint t1 \<le> sint t2 \<longrightarrow> sint (Timestamp (telemetry_of p1 t1)) \<le> sint (Timestamp (telemetry_of p2 t2)))"
    using assms
    by (simp add: setVesselTelemetry_lookup setVesselTelemetry_accepted
      DAList.update.rep_eq filter_key_update range_append_map telemetry_of_fields)
  from one rest show ?thesis by blast
qed

theorem upsert_replaces_witness:
  "Values_Get sample_params ''veh_id'' = ''42''
   \<and> Values_Get second_params ''veh_id'' = ''42''
   \<and> ''42'' \<noteq> []
   \<and> Values_Get sample_params ''type'' \<noteq> []
   \<and> Values_Get second_params ''type'' \<noteq> []
   \<and> sint (1000 :: int64) \<le> sint (2000 :: int64)
   \<and> filter (\<lambda>e. fst e = ''42'')
        (DAList.impl_of (vessels (fst (setVesselTelemetry second_params 2000 2001
           (foldl step (fst (setVesselTelemetry sample_params 1000 1001 (initial ''u'')))
              [GetRequest 1500])))))
       = [(''42'', telemetry_of second_params 2000)]
   \<and> X (telemetry_of second_params 2000) = Finite 3
   \<and> Name (telemetry_of second_params 2000) = ''later''
   \<and> sint (Timestamp (telemetry_of sample_params 1000)) \<le> sint (Timestamp (telemetry_of second_params 2000))"
proof -
  have a: "Values_Get sample_params ''veh_id'' = ''42''"
    and b: "Values_Get second_params ''veh_id'' = ''42''"
    and c: "''42'' \<noteq> []"
    and d: "Values_Get sample_params ''type'' \<noteq> []"
    and e: "Values_Get second_params ''type'' \<noteq> []"
    by (simp_all add: sample_params_Get)
  have f: "sint (1000 :: int64) \<le> sint (2000 :: int64)" by simp
  have g: "X (telemetry_of second_params 2000) = Finite 3"
    "Name (telemetry_of second_params 2000) = ''later''"
    by (simp_all add: telemetry_of_fields sample_params_Get parseFloat_3)
  from upsert_replaces [OF a b c d e, of "initial ''u''" "[GetRequest 1500]" 1000 1001 2000 2001]
    a b c d e f g
  show ?thesis by simp
qed

section \<open>The success response\<close>

lemma Marshal_float64_if:
  "Marshal_float64 f = (if is_finite f then Inr (JNumber (float64_value f)) else Inl ErrUnsupportedValue)"
  by (cases f) (simp_all add: Marshal_float64_def is_finite_def float64_value_def)

lemma Marshal_VesselTelemetry_if:
  "Marshal_VesselTelemetry v = (if encodable v then Inr (json_of_vessel v) else Inl ErrUnsupportedValue)"
  by (simp add: Marshal_VesselTelemetry_def Marshal_float64_if encodable_def json_of_vessel_def)

lemma Marshal_elements_if:
  "Marshal_elements (map Marshal_VesselTelemetry vs) =
     (if list_all encodable vs then Inr (map json_of_vessel vs) else Inl ErrUnsupportedValue)"
  by (induction vs) (simp_all add: Marshal_VesselTelemetry_if)

text \<open>
  What both handlers send on success: the object of C7 when every record in the store can
  be encoded, and nothing at all otherwise.
\<close>

lemma vesselsResponse_body:
  "body (vesselsResponse now vs) =
     (if list_all encodable (map snd (DAList.impl_of vs))
      then Some (JObject
        [(''errorcode'', JNumber (- 1)),
         (''vessels'', JArray (map json_of_vessel (map snd (DAList.impl_of vs)))),
         (''count'', JNumber (of_nat (length (DAList.impl_of vs)))),
         (''timestamp'', JNumber (of_int (sint now)))])
      else None)"
  by (simp add: vesselsResponse_def Let_def range_append_map Encode_def Marshal_iface_def
      Marshal_elements_if ErrorSuccess_def)

lemma nan_params_Get:
  "Values_Get nan_params ''veh_id'' = ''1''"
  "Values_Get nan_params ''type'' = ''2''"
  "Values_Get nan_params ''veh_x'' = ''nan''"
  by (simp_all add: nan_params_def Values_Get_def)

lemma parseFloat_nan: "parseFloat ''nan'' = NaN"
  by (simp add: parseFloat_def scan_defs)

text \<open>
  C7 does not hold of the code. The request \<^verbatim>\<open>veh_id=1&type=2&veh_x=nan\<close> is accepted
  and its record stored with \<^verbatim>\<open>X\<close> = NaN, which \<^verbatim>\<open>Sscanf\<close> reads from \<^verbatim>\<open>nan\<close>. The
  encoder cannot write NaN, so the body of the response to this request is empty, and
  so is the body of the response to a following \<^verbatim>\<open>getVessels\<close>.
\<close>

theorem nan_empties_the_response:
  "X (telemetry_of nan_params 1000) = NaN
   \<and> DAList.lookup (vessels (fst (setVesselTelemetry nan_params 1000 1001 (initial ''u'')))) ''1''
        = Some (telemetry_of nan_params 1000)
   \<and> body (fst (snd (setVesselTelemetry nan_params 1000 1001 (initial ''u'')))) = None
   \<and> body (fst (snd (getTelemetryData 1002
        (fst (setVesselTelemetry nan_params 1000 1001 (initial ''u'')))))) = None"
proof -
  have x: "X (telemetry_of nan_params 1000) = NaN"
    by (simp add: telemetry_of_fields nan_params_Get parseFloat_nan)
  then have ne: "\<not> encodable (telemetry_of nan_params 1000)"
    by (simp add: encodable_def is_finite_def)
  have st: "DAList.impl_of (DAList.update ''1'' (telemetry_of nan_params 1000) (vessels (initial ''u'')))
      = [(''1'', telemetry_of nan_params 1000)]"
    by (simp add: DAList.update.rep_eq initial_def DAList.empty.rep_eq)
  show ?thesis
    using x ne
    by (simp add: setVesselTelemetry_accepted nan_params_Get getTelemetryData_def
        vesselsResponse_body st DAList.lookup_update)
qed

section \<open>Checks of the number parsers\<close>

text \<open>
  \<^verbatim>\<open>Sscanf\<close> reads the number a string starts with, after leading spaces, and does not
  look at what follows; it reads \<^verbatim>\<open>inf\<close> as an infinity. \<^verbatim>\<open>ParseInt\<close> with base 0 takes
  a leading \<^verbatim>\<open>0\<close> for octal.
\<close>

lemma Sscanf_f_trailing: "Sscanf_f ''5abc'' = Inr (Finite 5)"
  by (simp add: scan_defs pow10_def round_float64_5)

lemma Sscanf_f_leading_space: "Sscanf_f '' 5'' = Inr (Finite 5)"
  by (simp add: scan_defs pow10_def round_float64_5)

lemma Sscanf_f_inf: "Sscanf_f ''inf'' = Inr PosInf"
  by (simp add: scan_defs)

lemma ParseInt_08: "ParseInt ''08'' 0 = Inl ErrSyntax"
  by (simp add: int_defs)

text \<open>
  The rounding: \<open>binary_exponent\<close> is the exponent of the power of two at or below its
  argument, and the number \<open>round_float64\<close> returns is within half a unit in the last
  place of the number it is given.
\<close>

lemma pow2_powi: "pow2 e = 2 powi e"
  by (simp add: pow2_def power_int_def field_simps)

lemma pow2_pos: "0 < pow2 e"
  by (simp add: pow2_powi)

lemma pow2_diff: "pow2 (a - b) = pow2 a / pow2 b"
  by (simp add: pow2_powi power_int_diff)

lemma bitlen_rat_bounds:
  fixes a :: int
  assumes "0 < a"
  shows "pow2 (bitlen a - 1) \<le> of_int a" and "(of_int a :: rat) < pow2 (bitlen a)"
proof -
  from bitlen_bounds [OF assms] have lo: "2 ^ nat (bitlen a - 1) \<le> a" and hi: "a < 2 ^ nat (bitlen a)"
    by auto
  have b1: "1 \<le> bitlen a" using assms by (auto simp: bitlen_alt_def)
  have "pow2 (bitlen a - 1) = 2 ^ nat (bitlen a - 1)"
    using b1 by (simp add: pow2_def)
  also have "\<dots> = of_int (2 ^ nat (bitlen a - 1))" by simp
  also have "\<dots> \<le> (of_int a :: rat)" using lo by (subst of_int_le_iff)
  finally show "pow2 (bitlen a - 1) \<le> of_int a" .
  have "(of_int a :: rat) < of_int (2 ^ nat (bitlen a))" using hi by (subst of_int_less_iff)
  also have "\<dots> = pow2 (bitlen a)" using b1 by (simp add: pow2_def)
  finally show "(of_int a :: rat) < pow2 (bitlen a)" .
qed

lemma binary_exponent_bounds:
  assumes "0 < q"
  shows "pow2 (binary_exponent q) \<le> q \<and> q < pow2 (binary_exponent q + 1)"
proof -
  obtain a b where ab: "quotient_of q = (a, b)" by (cases "quotient_of q")
  then have b: "0 < b" and q: "q = of_int a / of_int b"
    by (auto dest: quotient_of_denom_pos quotient_of_div)
  with assms have a: "0 < a"
    by (simp add: zero_less_divide_iff)
  have rb: "(0 :: rat) < of_int b" and ra: "(0 :: rat) < of_int a"
    using a b by simp_all
  define e0 where "e0 = bitlen a - bitlen b"
  have lo: "pow2 (e0 - 1) < q"
  proof -
    have "pow2 (e0 - 1) = pow2 (bitlen a - 1) / pow2 (bitlen b)"
      by (simp add: e0_def pow2_diff [symmetric] algebra_simps)
    also have "\<dots> \<le> of_int a / pow2 (bitlen b)"
      by (rule divide_right_mono [OF bitlen_rat_bounds(1) [OF a]]) (simp add: pow2_pos less_imp_le)
    also have "\<dots> < of_int a / of_int b"
      using ra rb by (intro divide_strict_left_mono [OF bitlen_rat_bounds(2) [OF b]])
        (simp_all add: pow2_pos)
    finally show ?thesis by (simp add: q)
  qed
  have hi: "q < pow2 (e0 + 1)"
  proof -
    have "q = of_int a / of_int b" by (rule q)
    also have "\<dots> < pow2 (bitlen a) / of_int b"
      using rb by (intro divide_strict_right_mono [OF bitlen_rat_bounds(2) [OF a]])
    also have "\<dots> \<le> pow2 (bitlen a) / pow2 (bitlen b - 1)"
      using rb by (intro divide_left_mono [OF bitlen_rat_bounds(1) [OF b]])
        (simp_all add: pow2_pos less_imp_le)
    also have "\<dots> = pow2 (e0 + 1)"
      by (simp add: e0_def pow2_diff [symmetric] algebra_simps)
    finally show ?thesis .
  qed
  show ?thesis
  proof (cases "pow2 e0 \<le> q")
    case True
    then show ?thesis using hi by (simp add: binary_exponent_def ab e0_def)
  next
    case False
    then show ?thesis using lo by (simp add: binary_exponent_def ab e0_def)
  qed
qed

lemma round_half_even_near: "\<bar>of_int (round_half_even x) - x\<bar> \<le> 1 / 2"
proof -
  have f: "of_int \<lfloor>x\<rfloor> \<le> x" "x < of_int \<lfloor>x\<rfloor> + 1"
    by linarith+
  show ?thesis
    unfolding round_half_even_def Let_def
    using f by (simp add: abs_if) linarith
qed

lemma round_float64_near:
  assumes "round_float64 q = Some r" and "q \<noteq> 0"
  shows "\<bar>r - q\<bar> \<le> pow2 (max (binary_exponent \<bar>q\<bar>) (- 1022) - 52) / 2"
proof -
  define ulp where "ulp = pow2 (max (binary_exponent \<bar>q\<bar>) (- 1022) - 52)"
  define n where "n = round_half_even (\<bar>q\<bar> / ulp)"
  have up: "0 < ulp" by (simp add: ulp_def pow2_pos)
  from assms have r: "r = (if q < 0 then - (of_int n * ulp) else of_int n * ulp)"
    by (auto simp: round_float64_def Let_def ulp_def n_def split: if_splits)
  have half: "\<bar>of_int n - \<bar>q\<bar> / ulp\<bar> \<le> 1 / 2"
    unfolding n_def by (rule round_half_even_near)
  have "(of_int n - \<bar>q\<bar> / ulp) * ulp = of_int n * ulp - \<bar>q\<bar>"
    using up by (simp add: left_diff_distrib)
  then have "\<bar>of_int n * ulp - \<bar>q\<bar>\<bar> = \<bar>(of_int n - \<bar>q\<bar> / ulp) * ulp\<bar>"
    by simp
  also have "\<dots> = \<bar>of_int n - \<bar>q\<bar> / ulp\<bar> * ulp"
    using up by (simp add: abs_mult)
  also have "\<dots> \<le> 1 / 2 * ulp"
    using half up by (intro mult_right_mono) auto
  finally have "\<bar>of_int n * ulp - \<bar>q\<bar>\<bar> \<le> ulp / 2"
    by simp
  then show ?thesis
    unfolding ulp_def [symmetric] r by (auto simp: abs_if split: if_splits)
qed

end
